theory Spec2Isabelle
  imports Main "HOL-Library.Word"
begin

section \<open>Data model (shared schema)\<close>

text \<open>
  The enums of the schema: \<^verbatim>\<open>user_role\<close>, \<^verbatim>\<open>order_status\<close> and
  \<^verbatim>\<open>payment_status\<close>, one constructor per label, in the order of declaration.
\<close>

datatype user_role = Role_admin | Role_vendor | Role_delivery | Role_user

datatype order_status =
  Pending | Confirmed | Preparing | Ready | Picked_up | In_transit | Delivered | Cancelled

datatype payment_status = Payment_pending | Payment_paid | Payment_failed

text \<open>
  Table rows. A \<^verbatim>\<open>varchar\<close>/\<^verbatim>\<open>text\<close> column is a \<open>string\<close>, a nullable
  column an \<open>option\<close>, a \<^verbatim>\<open>decimal\<close> column the string drizzle hands out, a
  \<^verbatim>\<open>timestamp\<close> a number of milliseconds. The rows of \<^verbatim>\<open>users\<close>,
  \<^verbatim>\<open>vendors\<close> and \<^verbatim>\<open>products\<close> keep the columns that the modelled
  operations read (keys, credentials, role); the rows of \<^verbatim>\<open>orders\<close>,
  \<^verbatim>\<open>order_items\<close> and \<^verbatim>\<open>chats\<close> keep every column.
\<close>

record User =
  u_id :: string
  u_username :: string
  u_password :: string
  u_role :: user_role

record Vendor =
  v_id :: string
  v_userId :: string

record Product =
  p_id :: string
  p_vendorId :: string

record Order =
  o_id :: string
  o_orderNumber :: string
  o_userId :: string
  o_vendorId :: string
  o_deliveryPersonId :: "string option"
  o_status :: order_status
  o_totalAmount :: string
  o_deliveryFee :: string
  o_paymentStatus :: payment_status
  o_deliveryAddress :: string
  o_pickupAddress :: string
  o_orderType :: string
  o_specialInstructions :: "string option"
  o_estimatedDeliveryTime :: "nat option"
  o_actualDeliveryTime :: "nat option"
  o_createdAt :: nat

record OrderItem =
  i_id :: string
  i_orderId :: string
  i_productId :: "string option"
  i_productName :: string
  i_quantity :: int
  i_price :: string
  i_totalPrice :: string

record Chat =
  c_id :: string
  c_orderId :: string
  c_senderId :: string
  c_receiverId :: string
  c_message :: string
  c_isRead :: bool
  c_createdAt :: nat

text \<open>
  A value that \<^verbatim>\<open>JSON.parse\<close> returns, as a request body or a WebSocket message
  carries it. A number, which no handler inspects, is kept as an integer. Strings are the
  bytes of their UTF-8 encoding.
\<close>

datatype json =
  JNull | JBool bool | JNumber int | JString string | JArray "json list"
  | JObject "(string \<times> json) list"

text \<open>
  \<^verbatim>\<open>Partial<InsertOrder>\<close>, the type of the \<^verbatim>\<open>updates\<close> argument of
  \<^verbatim>\<open>updateOrder\<close>: every insertable column of \<^verbatim>\<open>orders\<close>
  (\<^verbatim>\<open>id\<close>, \<^verbatim>\<open>orderNumber\<close> and \<^verbatim>\<open>createdAt\<close> are omitted by the
  insert schema), each optional. \<open>None\<close> is an absent key; for a nullable column
  \<open>Some None\<close> is an explicit \<^verbatim>\<open>null\<close>. The text, enum and decimal columns
  are typed as the signature is: a value that is not a string, or not a label of the enum,
  has no counterpart here. The two timestamp columns, typed \<^verbatim>\<open>Date\<close> in the
  signature, hold the JSON value the body carries, since no JSON value is a
  \<^verbatim>\<open>Date\<close>.
\<close>

record PartialInsertOrder =
  upd_userId :: "string option"
  upd_vendorId :: "string option"
  upd_deliveryPersonId :: "string option option"
  upd_status :: "order_status option"
  upd_totalAmount :: "string option"
  upd_deliveryFee :: "string option"
  upd_paymentStatus :: "payment_status option"
  upd_deliveryAddress :: "string option"
  upd_pickupAddress :: "string option"
  upd_orderType :: "string option"
  upd_specialInstructions :: "string option option"
  upd_estimatedDeliveryTime :: "json option"
  upd_actualDeliveryTime :: "json option"

text \<open>
  The database: one list of rows per table, in insertion order, and the engine's reading
  of a text sent for a \<^verbatim>\<open>decimal(10, 2)\<close> column: the text it stores and hands
  back, or \<open>None\<close> when it refuses the text as ill-formed or out of range. The reading
  belongs to the database engine and is a parameter here.
\<close>

record db =
  users :: "User list"
  vendors :: "Vendor list"
  products :: "Product list"
  orders :: "Order list"
  orderItems :: "OrderItem list"
  chats :: "Chat list"
  numeric_10_2 :: "string \<Rightarrow> string option"

text \<open>
  What the database refuses: a foreign key that names no row
  (\<^verbatim>\<open>.references(() => users.id)\<close>), a second row with the same primary key or
  unique column, a missing value for a \<^verbatim>\<open>notNull\<close> column without default,
  and as \<open>DataException\<close> a text with a zero byte, a decimal text its reading refuses
  and an integer outside 32 bits. \<open>NoValuesToSet\<close> is what the query builder throws for
  an update without a column, \<open>ZodError\<close> what \<^verbatim>\<open>schema.parse\<close> throws,
  \<open>TypeError\<close> a property read on \<^verbatim>\<open>null\<close> or a call of a method the value
  lacks, \<open>RangeError\<close> what \<^verbatim>\<open>timingSafeEqual\<close> throws on buffers of different
  lengths.
\<close>

datatype error =
  ForeignKeyViolation | UniqueViolation | NotNullViolation | DataException | NoValuesToSet
  | ZodError | TypeError | RangeError

text \<open>
  An HTTP answer: \<^verbatim>\<open>res.status(n).json({ message })\<close> is \<open>Failure n message\<close>,
  \<^verbatim>\<open>res.status(n).json(value)\<close> is \<open>Success n value\<close> (\<^verbatim>\<open>res.json\<close>
  alone answers 200).
\<close>

datatype 'a response = Failure nat string | Success nat 'a

text \<open>
  A request as the handlers read it: \<^verbatim>\<open>req.user\<close> (\<open>None\<close> when
  \<^verbatim>\<open>req.isAuthenticated()\<close> is false), \<^verbatim>\<open>req.params.id\<close> and
  \<^verbatim>\<open>req.body\<close>.
\<close>

record 'b request =
  req_user :: "User option"
  req_params_id :: string
  req_body :: 'b

section \<open>Storage: orders and vendors\<close>

definition getOrder :: "db \<Rightarrow> string \<Rightarrow> Order option" where
  "getOrder st ident = find (\<lambda>row. o_id row = ident) (orders st)"

definition getVendorByUserId :: "db \<Rightarrow> string \<Rightarrow> Vendor option" where
  "getVendorByUserId st userId = find (\<lambda>v. v_userId v = userId) (vendors st)"

text \<open>
  \<^verbatim>\<open>.set(updates)\<close> on one row: a column changes exactly when its key is present.
  A timestamp that reaches a row is \<^verbatim>\<open>null\<close>, every other value having stopped
  the update before.
\<close>

definition set_updates :: "PartialInsertOrder \<Rightarrow> Order \<Rightarrow> Order" where
  "set_updates updates row =
     row\<lparr> o_userId := (case upd_userId updates of None \<Rightarrow> o_userId row | Some x \<Rightarrow> x),
        o_vendorId := (case upd_vendorId updates of None \<Rightarrow> o_vendorId row | Some x \<Rightarrow> x),
        o_deliveryPersonId :=
          (case upd_deliveryPersonId updates of None \<Rightarrow> o_deliveryPersonId row | Some x \<Rightarrow> x),
        o_status := (case upd_status updates of None \<Rightarrow> o_status row | Some x \<Rightarrow> x),
        o_totalAmount := (case upd_totalAmount updates of None \<Rightarrow> o_totalAmount row | Some x \<Rightarrow> x),
        o_deliveryFee := (case upd_deliveryFee updates of None \<Rightarrow> o_deliveryFee row | Some x \<Rightarrow> x),
        o_paymentStatus :=
          (case upd_paymentStatus updates of None \<Rightarrow> o_paymentStatus row | Some x \<Rightarrow> x),
        o_deliveryAddress :=
          (case upd_deliveryAddress updates of None \<Rightarrow> o_deliveryAddress row | Some x \<Rightarrow> x),
        o_pickupAddress :=
          (case upd_pickupAddress updates of None \<Rightarrow> o_pickupAddress row | Some x \<Rightarrow> x),
        o_orderType := (case upd_orderType updates of None \<Rightarrow> o_orderType row | Some x \<Rightarrow> x),
        o_specialInstructions :=
          (case upd_specialInstructions updates of None \<Rightarrow> o_specialInstructions row | Some x \<Rightarrow> x),
        o_estimatedDeliveryTime :=
          (case upd_estimatedDeliveryTime updates of
             None \<Rightarrow> o_estimatedDeliveryTime row | Some x \<Rightarrow> None),
        o_actualDeliveryTime :=
          (case upd_actualDeliveryTime updates of
             None \<Rightarrow> o_actualDeliveryTime row | Some x \<Rightarrow> None) \<rparr>"

text \<open>
  The foreign keys of \<^verbatim>\<open>orders\<close>: \<^verbatim>\<open>user_id\<close> and
  \<^verbatim>\<open>delivery_person_id\<close> reference \<^verbatim>\<open>users.id\<close>, \<^verbatim>\<open>vendor_id\<close>
  references \<^verbatim>\<open>vendors.id\<close>. A written value must name a row; \<^verbatim>\<open>null\<close>
  references nothing.
\<close>

definition references_user :: "db \<Rightarrow> string \<Rightarrow> bool" where
  "references_user st x = (x \<in> set (map u_id (users st)))"

definition references_vendor :: "db \<Rightarrow> string \<Rightarrow> bool" where
  "references_vendor st x = (x \<in> set (map v_id (vendors st)))"

definition references_order :: "db \<Rightarrow> string \<Rightarrow> bool" where
  "references_order st x = (x \<in> set (map o_id (orders st)))"

definition references_product :: "db \<Rightarrow> string \<Rightarrow> bool" where
  "references_product st x = (x \<in> set (map p_id (products st)))"

definition updates_foreign_keys :: "db \<Rightarrow> PartialInsertOrder \<Rightarrow> bool" where
  "updates_foreign_keys st updates =
     ((case upd_userId updates of None \<Rightarrow> True | Some x \<Rightarrow> references_user st x) \<and>
      (case upd_vendorId updates of None \<Rightarrow> True | Some x \<Rightarrow> references_vendor st x) \<and>
      (case upd_deliveryPersonId updates of
         None \<Rightarrow> True | Some None \<Rightarrow> True | Some (Some x) \<Rightarrow> references_user st x))"

text \<open>The update without a column, \<^verbatim>\<open>{}\<close>, and the body \<^verbatim>\<open>{ status }\<close> the dashboards send.\<close>

definition no_updates :: PartialInsertOrder where
  "no_updates =
     \<lparr> upd_userId = None, upd_vendorId = None, upd_deliveryPersonId = None, upd_status = None,
       upd_totalAmount = None, upd_deliveryFee = None, upd_paymentStatus = None,
       upd_deliveryAddress = None, upd_pickupAddress = None, upd_orderType = None,
       upd_specialInstructions = None, upd_estimatedDeliveryTime = None,
       upd_actualDeliveryTime = None \<rparr>"

definition status_body :: "order_status \<Rightarrow> PartialInsertOrder" where
  "status_body requested = no_updates\<lparr>upd_status := Some requested\<rparr>"

text \<open>
  What stops a write before any row is touched. The column mapper of a timestamp calls
  \<^verbatim>\<open>toISOString\<close> on every value but \<^verbatim>\<open>null\<close>, which a JSON value lacks. The
  database takes no text with a zero byte, and reads a decimal text with its own reading.
  The texts looked at are those of the columns that are no keys: a key is checked against
  the rows it references.
\<close>

definition null_or_absent :: "json option \<Rightarrow> bool" where
  "null_or_absent x = (x = None \<or> x = Some JNull)"

definition text_in :: "string \<Rightarrow> bool" where
  "text_in s = (CHR 0x00 \<notin> set s)"

definition read_numeric :: "db \<Rightarrow> string option \<Rightarrow> error + string option" where
  "read_numeric st x =
     (case x of
        None \<Rightarrow> Inr None
      | Some s \<Rightarrow>
          (case numeric_10_2 st s of
             None \<Rightarrow> Inl DataException
           | Some stored \<Rightarrow> Inr (Some stored)))"

definition written_texts :: "PartialInsertOrder \<Rightarrow> string list" where
  "written_texts updates =
     concat (map (\<lambda>x. case x of None \<Rightarrow> [] | Some t \<Rightarrow> [t])
       [upd_deliveryAddress updates, upd_pickupAddress updates, upd_orderType updates,
        (case upd_specialInstructions updates of None \<Rightarrow> None | Some i \<Rightarrow> i)])"

text \<open>
  \<^verbatim>\<open>db.update(orders).set(updates).where(eq(orders.id, id)).returning()\<close>.
  \<^verbatim>\<open>set\<close> throws for an object without a column, the mapping of the values throws
  for a timestamp that is not \<^verbatim>\<open>null\<close>, and the database refuses the statement for
  a text or a decimal it cannot read, and for a foreign key that names no row when a row
  is written. Otherwise every row with the identifier is rewritten, the decimals as the
  database reads them, and the first rewritten row (or \<^verbatim>\<open>undefined\<close>) is returned.
\<close>

definition updateOrder ::
  "db \<Rightarrow> string \<Rightarrow> PartialInsertOrder \<Rightarrow> error + (Order option \<times> db)" where
  "updateOrder st ident updates =
     (if updates = no_updates then Inl NoValuesToSet
      else if \<not> null_or_absent (upd_estimatedDeliveryTime updates)
              \<or> \<not> null_or_absent (upd_actualDeliveryTime updates)
      then Inl TypeError
      else if \<not> list_all text_in (written_texts updates) then Inl DataException
      else
        (case read_numeric st (upd_totalAmount updates) of
           Inl err \<Rightarrow> Inl err
         | Inr totalAmount \<Rightarrow>
             (case read_numeric st (upd_deliveryFee updates) of
                Inl err \<Rightarrow> Inl err
              | Inr deliveryFee \<Rightarrow>
                  if find (\<lambda>row. o_id row = ident) (orders st) \<noteq> None
                     \<and> \<not> updates_foreign_keys st updates
                  then Inl ForeignKeyViolation
                  else
                    let written =
                          updates\<lparr>upd_totalAmount := totalAmount, upd_deliveryFee := deliveryFee\<rparr>;
                        rows = map (\<lambda>row. if o_id row = ident then set_updates written row
                                           else row) (orders st)
                    in Inr (find (\<lambda>row. o_id row = ident) rows, st\<lparr>orders := rows\<rparr>))))"

section \<open>PUT /api/orders/:id\<close>

text \<open>
  The permission check of the handler, in its order of evaluation:
  \<^verbatim>\<open>req.user?.role === "admin" || order.userId === req.user.id ||
  order.deliveryPersonId === req.user.id || (req.user?.role === "vendor" &&
  (await storage.getVendorByUserId(req.user.id))?.id === order.vendorId)\<close>.
\<close>

definition canUpdate :: "db \<Rightarrow> User \<Rightarrow> Order \<Rightarrow> bool" where
  "canUpdate st user order =
     (u_role user = Role_admin \<or>
      o_userId order = u_id user \<or>
      o_deliveryPersonId order = Some (u_id user) \<or>
      (u_role user = Role_vendor \<and>
       (case getVendorByUserId st (u_id user) of
          None \<Rightarrow> False
        | Some v \<Rightarrow> v_id v = o_vendorId order)))"

definition put_api_orders ::
  "db \<Rightarrow> PartialInsertOrder request \<Rightarrow> Order option response \<times> db" where
  "put_api_orders st req =
     (case req_user req of
        None \<Rightarrow> (Failure 401 ''Authentication required'', st)
      | Some user \<Rightarrow>
          (case getOrder st (req_params_id req) of
             None \<Rightarrow> (Failure 404 ''Order not found'', st)
           | Some order \<Rightarrow>
               if \<not> canUpdate st user order
               then (Failure 403 ''Permission denied'', st)
               else
                 (case updateOrder st (req_params_id req) (req_body req) of
                    Inl e \<Rightarrow> (Failure 400 ''Failed to update order'', st)
                  | Inr (updatedOrder, st') \<Rightarrow> (Success 200 updatedOrder, st'))))"

text \<open>The body \<^verbatim>\<open>{ deliveryPersonId }\<close>, a user's identifier or \<^verbatim>\<open>null\<close>.\<close>

definition deliveryPerson_body :: "string option \<Rightarrow> PartialInsertOrder" where
  "deliveryPerson_body agent = no_updates\<lparr>upd_deliveryPersonId := Some agent\<rparr>"

text \<open>
  An update that the checks before the write let pass as it is: it carries a column, but
  no timestamp, no decimal and no text outside the keys, and its keys name rows.
\<close>

definition plain_update :: "db \<Rightarrow> PartialInsertOrder \<Rightarrow> bool" where
  "plain_update st updates =
     (updates \<noteq> no_updates \<and>
      upd_estimatedDeliveryTime updates = None \<and> upd_actualDeliveryTime updates = None \<and>
      upd_totalAmount updates = None \<and> upd_deliveryFee updates = None \<and>
      written_texts updates = [] \<and> updates_foreign_keys st updates)"

section \<open>Storage: inserts\<close>

text \<open>
  What a request draws from outside the program: the values of the column default
  \<^verbatim>\<open>gen_random_uuid()\<close> in the order they are drawn, the value of \<^verbatim>\<open>now()\<close>,
  and for the order number the decimal text of \<^verbatim>\<open>Date.now()\<close> and the text
  \<^verbatim>\<open>Math.random().toString(36).substr(2, 3).toUpperCase()\<close>.
\<close>

record env =
  gen_random_uuid :: "nat \<Rightarrow> string"
  now :: nat
  date_now :: string
  random_suffix :: string

text \<open>
  \<^verbatim>\<open>insertChatSchema\<close>: the columns of \<^verbatim>\<open>chats\<close> without \<^verbatim>\<open>id\<close> and
  \<^verbatim>\<open>createdAt\<close>. A \<^verbatim>\<open>notNull\<close> column without default is required, one with
  a default is optional and, when present, must be of its type. \<open>ChatBody\<close> is the
  object handed to \<^verbatim>\<open>parse\<close>: a required key that is absent or not a string is
  \<open>None\<close>, and \<^verbatim>\<open>isRead\<close> is the JSON value sent, if any.
\<close>

record ChatBody =
  cb_orderId :: "string option"
  cb_senderId :: "string option"
  cb_receiverId :: "string option"
  cb_message :: "string option"
  cb_isRead :: "json option"

record InsertChat =
  ic_orderId :: string
  ic_senderId :: string
  ic_receiverId :: string
  ic_message :: string
  ic_isRead :: "bool option"

definition insertChatSchema_parse :: "ChatBody \<Rightarrow> error + InsertChat" where
  "insertChatSchema_parse body =
     (case (cb_orderId body, cb_senderId body, cb_receiverId body, cb_message body) of
        (Some orderId, Some senderId, Some receiverId, Some message) \<Rightarrow>
          (case cb_isRead body of
             None \<Rightarrow>
               Inr \<lparr> ic_orderId = orderId, ic_senderId = senderId, ic_receiverId = receiverId,
                     ic_message = message, ic_isRead = None \<rparr>
           | Some (JBool isRead) \<Rightarrow>
               Inr \<lparr> ic_orderId = orderId, ic_senderId = senderId, ic_receiverId = receiverId,
                     ic_message = message, ic_isRead = Some isRead \<rparr>
           | Some other \<Rightarrow> Inl ZodError)
      | _ \<Rightarrow> Inl ZodError)"

text \<open>
  \<^verbatim>\<open>db.insert(chats).values(chat).returning()\<close>. The row takes its \<^verbatim>\<open>id\<close> and
  \<^verbatim>\<open>createdAt\<close> from the column defaults and \<^verbatim>\<open>isRead\<close> from its default
  \<^verbatim>\<open>false\<close> when absent. \<^verbatim>\<open>order_id\<close> references \<^verbatim>\<open>orders.id\<close>,
  \<^verbatim>\<open>sender_id\<close> and \<^verbatim>\<open>receiver_id\<close> reference \<^verbatim>\<open>users.id\<close>. The
  database takes no message with a zero byte.
\<close>

definition createChat :: "env \<Rightarrow> db \<Rightarrow> InsertChat \<Rightarrow> error + (Chat \<times> db)" where
  "createChat e st chat =
     (let newChat =
        \<lparr> c_id = gen_random_uuid e 0, c_orderId = ic_orderId chat,
          c_senderId = ic_senderId chat, c_receiverId = ic_receiverId chat,
          c_message = ic_message chat,
          c_isRead = (case ic_isRead chat of None \<Rightarrow> False | Some b \<Rightarrow> b),
          c_createdAt = now e \<rparr>
      in if \<not> text_in (ic_message chat) then Inl DataException
         else if \<not> references_order st (ic_orderId chat)
                 \<or> \<not> references_user st (ic_senderId chat)
                 \<or> \<not> references_user st (ic_receiverId chat)
         then Inl ForeignKeyViolation
         else if c_id newChat \<in> set (map c_id (chats st)) then Inl UniqueViolation
         else Inr (newChat, st\<lparr>chats := chats st @ [newChat]\<rparr>))"

text \<open>
  \<^verbatim>\<open>insertOrderSchema\<close>: the columns of \<^verbatim>\<open>orders\<close> without \<^verbatim>\<open>id\<close>,
  \<^verbatim>\<open>orderNumber\<close> and \<^verbatim>\<open>createdAt\<close>; \<^verbatim>\<open>userId\<close>, \<^verbatim>\<open>vendorId\<close>,
  \<^verbatim>\<open>totalAmount\<close>, \<^verbatim>\<open>deliveryAddress\<close> and \<^verbatim>\<open>pickupAddress\<close> are
  required. A timestamp must be a \<^verbatim>\<open>Date\<close> or \<^verbatim>\<open>null\<close>: of the JSON values
  only \<^verbatim>\<open>null\<close> passes.
\<close>

record InsertOrder =
  io_userId :: string
  io_vendorId :: string
  io_deliveryPersonId :: "string option option"
  io_status :: "order_status option"
  io_totalAmount :: string
  io_deliveryFee :: "string option"
  io_paymentStatus :: "payment_status option"
  io_deliveryAddress :: string
  io_pickupAddress :: string
  io_orderType :: "string option"
  io_specialInstructions :: "string option option"
  io_estimatedDeliveryTime :: "nat option option"
  io_actualDeliveryTime :: "nat option option"

definition insertOrderSchema_parse :: "PartialInsertOrder \<Rightarrow> error + InsertOrder" where
  "insertOrderSchema_parse body =
     (case (upd_userId body, upd_vendorId body, upd_totalAmount body,
            upd_deliveryAddress body, upd_pickupAddress body) of
        (Some userId, Some vendorId, Some totalAmount, Some deliveryAddress, Some pickupAddress) \<Rightarrow>
          if \<not> null_or_absent (upd_estimatedDeliveryTime body)
             \<or> \<not> null_or_absent (upd_actualDeliveryTime body)
          then Inl ZodError
          else
          Inr \<lparr> io_userId = userId, io_vendorId = vendorId,
                io_deliveryPersonId = upd_deliveryPersonId body, io_status = upd_status body,
                io_totalAmount = totalAmount, io_deliveryFee = upd_deliveryFee body,
                io_paymentStatus = upd_paymentStatus body,
                io_deliveryAddress = deliveryAddress, io_pickupAddress = pickupAddress,
                io_orderType = upd_orderType body,
                io_specialInstructions = upd_specialInstructions body,
                io_estimatedDeliveryTime =
                  (case upd_estimatedDeliveryTime body of None \<Rightarrow> None | Some v \<Rightarrow> Some None),
                io_actualDeliveryTime =
                  (case upd_actualDeliveryTime body of None \<Rightarrow> None | Some v \<Rightarrow> Some None) \<rparr>
      | _ \<Rightarrow> Inl ZodError)"

text \<open>A nullable column stores \<^verbatim>\<open>NULL\<close> for an absent key and for \<^verbatim>\<open>null\<close>.\<close>

definition nullable :: "'a option option \<Rightarrow> 'a option" where
  "nullable x = (case x of None \<Rightarrow> None | Some v \<Rightarrow> v)"

text \<open>
  \<^verbatim>\<open>createOrder\<close>: the order number is \<^verbatim>\<open>ECK-${Date.now()}-${...}\<close>; the row is
  \<^verbatim>\<open>{ ...order, orderNumber }\<close> with the column defaults \<^verbatim>\<open>pending\<close>,
  \<^verbatim>\<open>"0"\<close> (which the database hands back as \<^verbatim>\<open>0.00\<close>), \<^verbatim>\<open>pending\<close> and
  \<^verbatim>\<open>"catalog"\<close>. \<^verbatim>\<open>order_number\<close> is unique. The database refuses a text with
  a zero byte and a decimal it cannot read.
\<close>

definition inserted_texts :: "InsertOrder \<Rightarrow> string list" where
  "inserted_texts order =
     [io_deliveryAddress order, io_pickupAddress order] @
     concat (map (\<lambda>x. case x of None \<Rightarrow> [] | Some t \<Rightarrow> [t])
       [io_orderType order, nullable (io_specialInstructions order)])"

definition createOrder :: "env \<Rightarrow> db \<Rightarrow> InsertOrder \<Rightarrow> error + (Order \<times> db)" where
  "createOrder e st order =
     (if \<not> list_all text_in (inserted_texts order) then Inl DataException
      else
        (case read_numeric st (Some (io_totalAmount order)) of
           Inr (Some totalAmount) \<Rightarrow>
             (case read_numeric st (io_deliveryFee order) of
                Inl err \<Rightarrow> Inl err
              | Inr deliveryFee \<Rightarrow>
                  (let orderNumber = ''ECK-'' @ date_now e @ ''-'' @ random_suffix e;
                       newOrder =
                         \<lparr> o_id = gen_random_uuid e 0, o_orderNumber = orderNumber,
                           o_userId = io_userId order, o_vendorId = io_vendorId order,
                           o_deliveryPersonId = nullable (io_deliveryPersonId order),
                           o_status = (case io_status order of None \<Rightarrow> Pending | Some s \<Rightarrow> s),
                           o_totalAmount = totalAmount,
                           o_deliveryFee = (case deliveryFee of None \<Rightarrow> ''0.00'' | Some f \<Rightarrow> f),
                           o_paymentStatus =
                             (case io_paymentStatus order of
                                None \<Rightarrow> Payment_pending | Some p \<Rightarrow> p),
                           o_deliveryAddress = io_deliveryAddress order,
                           o_pickupAddress = io_pickupAddress order,
                           o_orderType =
                             (case io_orderType order of None \<Rightarrow> ''catalog'' | Some t \<Rightarrow> t),
                           o_specialInstructions = nullable (io_specialInstructions order),
                           o_estimatedDeliveryTime = nullable (io_estimatedDeliveryTime order),
                           o_actualDeliveryTime = nullable (io_actualDeliveryTime order),
                           o_createdAt = now e \<rparr>
                   in if \<not> references_user st (io_userId order)
                         \<or> \<not> references_vendor st (io_vendorId order)
                         \<or> (case nullable (io_deliveryPersonId order) of
                               None \<Rightarrow> False | Some d \<Rightarrow> \<not> references_user st d)
                      then Inl ForeignKeyViolation
                      else if o_id newOrder \<in> set (map o_id (orders st))
                              \<or> orderNumber \<in> set (map o_orderNumber (orders st))
                      then Inl UniqueViolation
                      else Inr (newOrder, st\<lparr>orders := orders st @ [newOrder]\<rparr>)))
         | _ \<Rightarrow> Inl DataException))"

text \<open>
  An element of \<^verbatim>\<open>req.body.items\<close>, handed to \<^verbatim>\<open>createOrderItem\<close> as
  \<^verbatim>\<open>{ ...item, orderId: order.id }\<close> without validation: the database refuses a row
  that lacks a \<^verbatim>\<open>notNull\<close> column, a quantity outside the 32 bits of an
  \<^verbatim>\<open>integer\<close>, a name with a zero byte and a price it cannot read.
  \<^verbatim>\<open>product_id\<close> is nullable and references \<^verbatim>\<open>products.id\<close>.
\<close>

record InsertOrderItem =
  ii_orderId :: "string option"
  ii_productId :: "string option"
  ii_productName :: "string option"
  ii_quantity :: "int option"
  ii_price :: "string option"
  ii_totalPrice :: "string option"

definition createOrderItem ::
  "env \<Rightarrow> nat \<Rightarrow> db \<Rightarrow> InsertOrderItem \<Rightarrow> error + (OrderItem \<times> db)" where
  "createOrderItem e k st orderItem =
     (case (ii_orderId orderItem, ii_productName orderItem, ii_quantity orderItem,
            ii_price orderItem, ii_totalPrice orderItem) of
        (Some orderId, Some productName, Some quantity, Some price, Some totalPrice) \<Rightarrow>
          if \<not> text_in productName \<or> quantity < - (2 ^ 31) \<or> 2 ^ 31 \<le> quantity
          then Inl DataException
          else
            (case (numeric_10_2 st price, numeric_10_2 st totalPrice) of
               (Some storedPrice, Some storedTotalPrice) \<Rightarrow>
                 (let newOrderItem =
                    \<lparr> i_id = gen_random_uuid e k, i_orderId = orderId,
                      i_productId = ii_productId orderItem, i_productName = productName,
                      i_quantity = quantity, i_price = storedPrice,
                      i_totalPrice = storedTotalPrice \<rparr>
                  in if \<not> references_order st orderId
                        \<or> (case ii_productId orderItem of
                              None \<Rightarrow> False | Some p \<Rightarrow> \<not> references_product st p)
                     then Inl ForeignKeyViolation
                     else if i_id newOrderItem \<in> set (map i_id (orderItems st))
                     then Inl UniqueViolation
                     else Inr (newOrderItem,
                               st\<lparr>orderItems := orderItems st @ [newOrderItem]\<rparr>))
             | _ \<Rightarrow> Inl DataException)
      | _ \<Rightarrow> Inl NotNullViolation)"

section \<open>POST /api/orders\<close>

text \<open>
  The body: the order's columns and \<^verbatim>\<open>items\<close> (\<open>None\<close> when the key is absent,
  falsy or not an array).
\<close>

record OrderBody =
  ob_columns :: PartialInsertOrder
  ob_items :: "InsertOrderItem list option"

text \<open>
  The loop over \<^verbatim>\<open>req.body.items\<close>: the \<open>k\<close>-th insert draws the \<open>k\<close>-th
  identifier. The first insert that throws ends the loop; the rows written before it stay,
  as no transaction encloses the handler.
\<close>

fun createOrderItems ::
  "env \<Rightarrow> nat \<Rightarrow> db \<Rightarrow> string \<Rightarrow> InsertOrderItem list \<Rightarrow> error option \<times> db" where
  "createOrderItems e k st orderId [] = (None, st)"
| "createOrderItems e k st orderId (item # items) =
     (case createOrderItem e k st (item\<lparr>ii_orderId := Some orderId\<rparr>) of
        Inl err \<Rightarrow> (Some err, st)
      | Inr (created, st') \<Rightarrow> createOrderItems e (Suc k) st' orderId items)"

definition post_api_orders :: "env \<Rightarrow> db \<Rightarrow> OrderBody request \<Rightarrow> Order response \<times> db" where
  "post_api_orders e st req =
     (case req_user req of
        None \<Rightarrow> (Failure 401 ''Authentication required'', st)
      | Some user \<Rightarrow>
          (case insertOrderSchema_parse
                  ((ob_columns (req_body req))\<lparr>upd_userId := Some (u_id user)\<rparr>) of
             Inl err \<Rightarrow> (Failure 400 ''Invalid order data'', st)
           | Inr validatedData \<Rightarrow>
               (case createOrder e st validatedData of
                  Inl err \<Rightarrow> (Failure 400 ''Invalid order data'', st)
                | Inr (order, st1) \<Rightarrow>
                    (case ob_items (req_body req) of
                       None \<Rightarrow> (Success 201 order, st1)
                     | Some items \<Rightarrow>
                         (case createOrderItems e 1 st1 (o_id order) items of
                            (Some err, st2) \<Rightarrow> (Failure 400 ''Invalid order data'', st2)
                          | (None, st2) \<Rightarrow> (Success 201 order, st2))))))"

section \<open>The WebSocket server\<close>

text \<open>
  Reading a property of a JSON value yields the value of the last member with that key,
  \<^verbatim>\<open>undefined\<close> (\<open>None\<close>) when there is none or when the value is a number, a
  string, a boolean or an array (the handler reads \<^verbatim>\<open>type\<close> and
  \<^verbatim>\<open>orderId\<close> only), and throws on \<^verbatim>\<open>null\<close>.
\<close>

definition property :: "json \<Rightarrow> string \<Rightarrow> error + json option" where
  "property v key =
     (case v of
        JNull \<Rightarrow> Inl TypeError
      | JObject members \<Rightarrow> Inr (map_of (rev members) key)
      | _ \<Rightarrow> Inr None)"

datatype ready_state = CONNECTING | OPEN | CLOSING | CLOSED

text \<open>The frame \<^verbatim>\<open>{ type: 'chat_message', data: chat }\<close>.\<close>

record ws_frame =
  f_type :: string
  f_data :: Chat

text \<open>
  A connection: its \<^verbatim>\<open>readyState\<close>, the \<^verbatim>\<open>orderId\<close> property the message
  handler sets (\<open>None\<close> is \<^verbatim>\<open>undefined\<close>), and the frames sent to its client, oldest
  first.
\<close>

record WebSocket =
  readyState :: ready_state
  ws_orderId :: "json option"
  ws_sent :: "ws_frame list"

text \<open>
  \<^verbatim>\<open>ws.on('message', ...)\<close>. The argument is the result of
  \<^verbatim>\<open>JSON.parse(message.toString())\<close>, \<open>None\<close> when it throws; every exception is
  caught and logged, and the connection stays as it was.
\<close>

definition on_message :: "WebSocket \<Rightarrow> json option \<Rightarrow> WebSocket" where
  "on_message ws parsed =
     (case parsed of
        None \<Rightarrow> ws
      | Some data \<Rightarrow>
          (case property data ''type'' of
             Inl err \<Rightarrow> ws
           | Inr t \<Rightarrow>
               if t = Some (JString ''join_order'')
               then (case property data ''orderId'' of
                       Inl err \<Rightarrow> ws
                     | Inr orderId \<Rightarrow> ws\<lparr>ws_orderId := orderId\<rparr>)
               else ws))"

definition send :: "WebSocket \<Rightarrow> ws_frame \<Rightarrow> WebSocket" where
  "send client frame = client\<lparr>ws_sent := ws_sent client @ [frame]\<rparr>"

text \<open>
  \<^verbatim>\<open>wss.clients.forEach\<close> in the chat handler: every client whose
  \<^verbatim>\<open>readyState\<close> is \<^verbatim>\<open>OPEN\<close> is sent the frame.
\<close>

definition emit_chat :: "Chat \<Rightarrow> WebSocket list \<Rightarrow> WebSocket list" where
  "emit_chat chat clients =
     map (\<lambda>client. if readyState client = OPEN
                    then send client \<lparr>f_type = ''chat_message'', f_data = chat\<rparr>
                    else client) clients"

section \<open>POST /api/chats\<close>

text \<open>The server: the database and \<^verbatim>\<open>wss.clients\<close> in order of connection.\<close>

record server =
  database :: db
  wss_clients :: "WebSocket list"

definition post_api_chats ::
  "env \<Rightarrow> server \<Rightarrow> ChatBody request \<Rightarrow> Chat response \<times> server" where
  "post_api_chats e srv req =
     (case req_user req of
        None \<Rightarrow> (Failure 401 ''Authentication required'', srv)
      | Some user \<Rightarrow>
          (case insertChatSchema_parse ((req_body req)\<lparr>cb_senderId := Some (u_id user)\<rparr>) of
             Inl err \<Rightarrow> (Failure 400 ''Invalid chat data'', srv)
           | Inr validatedData \<Rightarrow>
               (case createChat e (database srv) validatedData of
                  Inl err \<Rightarrow> (Failure 400 ''Invalid chat data'', srv)
                | Inr (chat, st') \<Rightarrow>
                    (Success 201 chat,
                     srv\<lparr>database := st',
                         wss_clients := emit_chat chat (wss_clients srv)\<rparr>))))"

section \<open>The chat widget of the client\<close>

text \<open>
  \<^verbatim>\<open>String.prototype.trim\<close> removes white space and line terminators from both
  ends: the characters U+0009 to U+000D, U+0020, U+00A0, U+1680, U+2000 to U+200A, U+2028,
  U+2029, U+202F, U+205F, U+3000 and U+FEFF, here in UTF-8.
\<close>

definition white_space :: "string list" where
  "white_space =
     [[CHR 0x09], [CHR 0x0A], [CHR 0x0B], [CHR 0x0C], [CHR 0x0D], [CHR 0x20],
      [CHR 0xC2, CHR 0xA0], [CHR 0xE1, CHR 0x9A, CHR 0x80],
      [CHR 0xE2, CHR 0x80, CHR 0x80], [CHR 0xE2, CHR 0x80, CHR 0x81],
      [CHR 0xE2, CHR 0x80, CHR 0x82], [CHR 0xE2, CHR 0x80, CHR 0x83],
      [CHR 0xE2, CHR 0x80, CHR 0x84], [CHR 0xE2, CHR 0x80, CHR 0x85],
      [CHR 0xE2, CHR 0x80, CHR 0x86], [CHR 0xE2, CHR 0x80, CHR 0x87],
      [CHR 0xE2, CHR 0x80, CHR 0x88], [CHR 0xE2, CHR 0x80, CHR 0x89],
      [CHR 0xE2, CHR 0x80, CHR 0x8A], [CHR 0xE2, CHR 0x80, CHR 0xA8],
      [CHR 0xE2, CHR 0x80, CHR 0xA9], [CHR 0xE2, CHR 0x80, CHR 0xAF],
      [CHR 0xE2, CHR 0x81, CHR 0x9F], [CHR 0xE3, CHR 0x80, CHR 0x80],
      [CHR 0xEF, CHR 0xBB, CHR 0xBF]]"

text \<open>Removing from the front of a string, as often as one of the given words begins it.\<close>

function strip :: "string list \<Rightarrow> string \<Rightarrow> string" where
  "strip ws s =
     (case find (\<lambda>w. w \<noteq> [] \<and> take (length w) s = w) ws of
        None \<Rightarrow> s
      | Some w \<Rightarrow> strip ws (drop (length w) s))"
  by pat_completeness auto
termination
proof (relation "measure (\<lambda>(ws, s). length s)")
  show "wf (measure (\<lambda>(ws, s). length s))"
    by simp
next
  fix ws :: "string list" and s w :: string
  assume "find (\<lambda>w. w \<noteq> [] \<and> take (length w) s = w) ws = Some w"
  then have word: "w \<noteq> []" and front: "take (length w) s = w"
    by (auto simp: find_Some_iff)
  have "length (take (length w) s) = length w"
    using front by simp
  then have "length w \<le> length s"
    by simp
  moreover have "0 < length w"
    using word by simp
  ultimately have "length s - length w < length s"
    by linarith
  then show "((ws, drop (length w) s), (ws, s)) \<in> measure (\<lambda>(ws, s). length s)"
    by simp
qed

declare strip.simps [simp del]

definition trim :: "string \<Rightarrow> string" where
  "trim s = rev (strip (map rev white_space) (rev (strip white_space s)))"

text \<open>The state \<^verbatim>\<open>handleSendMessage\<close> reads.\<close>

record ChatWidget =
  cw_user :: "User option"
  cw_orders :: "Order list"
  cw_selectedOrderId :: "string option"
  cw_message :: string

text \<open>
  \<^verbatim>\<open>handleSendMessage\<close>: the body handed to \<^verbatim>\<open>sendMessageMutation.mutate\<close>,
  \<open>None\<close> when the function returns without sending. An empty string and
  \<^verbatim>\<open>null\<close> are falsy.
\<close>

definition handleSendMessage :: "ChatWidget \<Rightarrow> ChatBody option" where
  "handleSendMessage w =
     (case cw_selectedOrderId w of
        None \<Rightarrow> None
      | Some selectedOrderId \<Rightarrow>
          if trim (cw_message w) = [] \<or> selectedOrderId = [] then None
          else
            (case find (\<lambda>row. o_id row = selectedOrderId) (cw_orders w) of
               None \<Rightarrow> None
             | Some order \<Rightarrow>
                 (let receiverId =
                    (case map_option u_role (cw_user w) of
                       Some Role_user \<Rightarrow>
                         (case o_deliveryPersonId order of
                            None \<Rightarrow> o_vendorId order
                          | Some d \<Rightarrow> if d = [] then o_vendorId order else d)
                     | Some Role_vendor \<Rightarrow> o_userId order
                     | Some Role_delivery \<Rightarrow> o_userId order
                     | _ \<Rightarrow> [])
                  in if receiverId = [] then None
                     else Some \<lparr> cb_orderId = Some selectedOrderId, cb_senderId = None,
                                 cb_receiverId = Some receiverId,
                                 cb_message = Some (trim (cw_message w)),
                                 cb_isRead = None \<rparr>)))"

section \<open>Passwords\<close>

type_synonym Buffer = "8 word list"

text \<open>
  \<^verbatim>\<open>buf.toString("hex")\<close> and \<^verbatim>\<open>Buffer.from(s, "hex")\<close>. Decoding reads the
  string two characters at a time and stops at the first pair that is not two hexadecimal
  digits; a last single character is dropped.
\<close>

definition hex_digit :: "nat \<Rightarrow> char" where
  "hex_digit n = ''0123456789abcdef'' ! (n mod 16)"

definition unhex :: "char \<Rightarrow> nat option" where
  "unhex c = map_of
     [(CHR ''0'', 0), (CHR ''1'', 1), (CHR ''2'', 2), (CHR ''3'', 3), (CHR ''4'', 4),
      (CHR ''5'', 5), (CHR ''6'', 6), (CHR ''7'', 7), (CHR ''8'', 8), (CHR ''9'', 9),
      (CHR ''a'', 10), (CHR ''b'', 11), (CHR ''c'', 12), (CHR ''d'', 13), (CHR ''e'', 14),
      (CHR ''f'', 15), (CHR ''A'', 10), (CHR ''B'', 11), (CHR ''C'', 12), (CHR ''D'', 13),
      (CHR ''E'', 14), (CHR ''F'', 15)] c"

fun toString_hex :: "Buffer \<Rightarrow> string" where
  "toString_hex [] = []"
| "toString_hex (b # bs) =
     hex_digit (unat b div 16) # hex_digit (unat b mod 16) # toString_hex bs"

fun Buffer_from_hex :: "string \<Rightarrow> Buffer" where
  "Buffer_from_hex (a # b # rest) =
     (case (unhex a, unhex b) of
        (Some x, Some y) \<Rightarrow> word_of_nat (16 * x + y) # Buffer_from_hex rest
      | _ \<Rightarrow> [])"
| "Buffer_from_hex _ = []"

text \<open>\<^verbatim>\<open>stored.split(".")\<close> and \<^verbatim>\<open>stored.startsWith(p)\<close>.\<close>

fun split_dot :: "string \<Rightarrow> string list" where
  "split_dot [] = [[]]"
| "split_dot (c # cs) =
     (if c = CHR ''.'' then [] # split_dot cs
      else (case split_dot cs of
              part # parts \<Rightarrow> (c # part) # parts
            | [] \<Rightarrow> [[c]]))"

definition startsWith :: "string \<Rightarrow> string \<Rightarrow> bool" where
  "startsWith s p = (take (length p) s = p)"

definition timingSafeEqual :: "Buffer \<Rightarrow> Buffer \<Rightarrow> error + bool" where
  "timingSafeEqual a b = (if length a \<noteq> length b then Inl RangeError else Inr (a = b))"

text \<open>
  \<^verbatim>\<open>scrypt\<close> of Node's \<^verbatim>\<open>crypto\<close> is a parameter: \<open>scrypt password salt keylen\<close>
  is the derived key. \<^verbatim>\<open>hashPassword\<close> takes the text of
  \<^verbatim>\<open>randomBytes(16).toString("hex")\<close> as its salt.
\<close>

type_synonym kdf = "string \<Rightarrow> string \<Rightarrow> nat \<Rightarrow> Buffer"

definition hashPassword :: "kdf \<Rightarrow> string \<Rightarrow> string \<Rightarrow> string" where
  "hashPassword scrypt salt password = toString_hex (scrypt password salt 64) @ ''.'' @ salt"

text \<open>
  \<^verbatim>\<open>comparePasswords\<close>. The \<^verbatim>\<open>try\<close> block encloses the decoding, the key
  derivation and the comparison; its \<^verbatim>\<open>catch\<close> returns \<^verbatim>\<open>false\<close>.
\<close>

definition comparePasswords :: "kdf \<Rightarrow> string \<Rightarrow> string \<Rightarrow> error + bool" where
  "comparePasswords scrypt supplied stored =
     (if startsWith stored ''$2a$'' \<or> startsWith stored ''$2b$'' \<or> startsWith stored ''$2y$''
      then Inr False
      else
        (case split_dot stored of
           [hashed, salt] \<Rightarrow>
             if salt = [] then Inr False
             else
               (case timingSafeEqual (Buffer_from_hex hashed) (scrypt supplied salt 64) of
                  Inl err \<Rightarrow> Inr False
                | Inr equal \<Rightarrow> Inr equal)
         | _ \<Rightarrow> Inr False))"

text \<open>The verify callback of the \<^verbatim>\<open>LocalStrategy\<close>: \<open>None\<close> is \<^verbatim>\<open>done(null, false)\<close>.\<close>

definition getUserByUsername :: "db \<Rightarrow> string \<Rightarrow> User option" where
  "getUserByUsername st name = find (\<lambda>u. u_username u = name) (users st)"

definition verify :: "kdf \<Rightarrow> db \<Rightarrow> string \<Rightarrow> string \<Rightarrow> error + User option" where
  "verify scrypt st name pass =
     (case getUserByUsername st name of
        None \<Rightarrow> Inr None
      | Some user \<Rightarrow>
          (case comparePasswords scrypt pass (u_password user) of
             Inl err \<Rightarrow> Inl err
           | Inr matches \<Rightarrow> if matches then Inr (Some user) else Inr None))"

text \<open>A request succeeds when its answer carries a value rather than an error message.\<close>

definition succeeds :: "'a response \<Rightarrow> bool" where
  "succeeds r = (case r of Success n v \<Rightarrow> True | Failure n m \<Rightarrow> False)"

section \<open>The specification's rules\<close>

text \<open>
  The transition graph and the Authorization Guard as the specification words them, for
  comparison with the handlers. The graph is \<^verbatim>\<open>pending \<rightarrow> confirmed \<rightarrow>
  preparing \<rightarrow> ready \<rightarrow> picked_up \<rightarrow> in_transit \<rightarrow> delivered\<close>, with
  \<^verbatim>\<open>cancelled\<close> reachable from every state that is neither \<^verbatim>\<open>delivered\<close> nor
  \<^verbatim>\<open>cancelled\<close>.
\<close>

fun graph_successor :: "order_status \<Rightarrow> order_status option" where
  "graph_successor Pending = Some Confirmed"
| "graph_successor Confirmed = Some Preparing"
| "graph_successor Preparing = Some Ready"
| "graph_successor Ready = Some Picked_up"
| "graph_successor Picked_up = Some In_transit"
| "graph_successor In_transit = Some Delivered"
| "graph_successor Delivered = None"
| "graph_successor Cancelled = None"

definition spec_graph_valid :: "order_status \<Rightarrow> order_status \<Rightarrow> bool" where
  "spec_graph_valid current requested =
     (graph_successor current = Some requested \<or>
      (requested = Cancelled \<and> current \<noteq> Delivered \<and> current \<noteq> Cancelled))"

text \<open>
  The guard's rule by role: an administrator any transition; a vendor whose vendor
  identity is \<^verbatim>\<open>order.vendorId\<close> the steps from \<^verbatim>\<open>confirmed\<close> to
  \<^verbatim>\<open>preparing\<close> and from \<^verbatim>\<open>preparing\<close> to \<^verbatim>\<open>ready\<close>; the delivery agent
  who is \<^verbatim>\<open>order.deliveryPersonId\<close> the steps from \<^verbatim>\<open>ready\<close> to
  \<^verbatim>\<open>delivered\<close>; the customer who is \<^verbatim>\<open>order.userId\<close> a cancellation while the
  status is \<^verbatim>\<open>pending\<close> or \<^verbatim>\<open>confirmed\<close>.
\<close>

definition spec_guard_covers :: "db \<Rightarrow> User \<Rightarrow> Order \<Rightarrow> order_status \<Rightarrow> bool" where
  "spec_guard_covers st actor order requested =
     (case u_role actor of
        Role_admin \<Rightarrow> True
      | Role_vendor \<Rightarrow>
          (case getVendorByUserId st (u_id actor) of
             None \<Rightarrow> False
           | Some v \<Rightarrow> v_id v = o_vendorId order) \<and>
          (o_status order, requested) \<in> {(Confirmed, Preparing), (Preparing, Ready)}
      | Role_delivery \<Rightarrow>
          o_deliveryPersonId order = Some (u_id actor) \<and>
          (o_status order, requested) \<in>
            {(Ready, Picked_up), (Picked_up, In_transit), (In_transit, Delivered)}
      | Role_user \<Rightarrow>
          o_userId order = u_id actor \<and> requested = Cancelled \<and>
          o_status order \<in> {Pending, Confirmed})"

text \<open>
  A participant of an order: its customer, the user behind its vendor, or its assigned
  delivery agent.
\<close>

definition spec_participant :: "db \<Rightarrow> User \<Rightarrow> Order \<Rightarrow> bool" where
  "spec_participant st actor order =
     (o_userId order = u_id actor \<or>
      o_deliveryPersonId order = Some (u_id actor) \<or>
      (case getVendorByUserId st (u_id actor) of
         None \<Rightarrow> False
       | Some v \<Rightarrow> v_id v = o_vendorId order))"

text \<open>
  A stored password in the format \<^verbatim>\<open>hashPassword\<close> writes: no bcrypt prefix, two
  parts around one dot, the first of them the 128 hexadecimal digits of a 64 byte key.
\<close>

definition spec_well_formed_scrypt :: "string \<Rightarrow> bool" where
  "spec_well_formed_scrypt stored =
     (\<not> startsWith stored ''$2a$'' \<and> \<not> startsWith stored ''$2b$'' \<and>
      \<not> startsWith stored ''$2y$'' \<and>
      (case split_dot stored of
         [hashed, salt] \<Rightarrow> length hashed = 128 \<and> list_all (\<lambda>c. unhex c \<noteq> None) hashed
       | _ \<Rightarrow> False))"

text \<open>
  What the program relies on from \<^verbatim>\<open>scrypt\<close>: the derived key has the length asked
  for.
\<close>

definition derives_keylen :: "kdf \<Rightarrow> bool" where
  "derives_keylen scrypt = (\<forall>pass salt keylen. length (scrypt pass salt keylen) = keylen)"

section \<open>Sample data\<close>

text \<open>The demo accounts, two further accounts, one shop and three orders.\<close>

definition admin :: User where
  "admin = \<lparr>u_id = ''u-admin'', u_username = ''admin'', u_password = ''$2b$10$N9qo8uLOickgx2ZMRZoMye'',
            u_role = Role_admin\<rparr>"

definition vendor1 :: User where
  "vendor1 = \<lparr>u_id = ''u-vendor1'', u_username = ''vendor1'', u_password = ''no-dot-in-here'',
              u_role = Role_vendor\<rparr>"

definition delivery1 :: User where
  "delivery1 = \<lparr>u_id = ''u-delivery1'', u_username = ''delivery1'', u_password = ''00ff.5a17'',
                u_role = Role_delivery\<rparr>"

definition delivery2 :: User where
  "delivery2 = \<lparr>u_id = ''u-delivery2'', u_username = ''delivery2'', u_password = ''a.b.c'',
                u_role = Role_delivery\<rparr>"

definition customer1 :: User where
  "customer1 = \<lparr>u_id = ''u-customer1'', u_username = ''customer1'', u_password = ''abc.'',
                u_role = Role_user\<rparr>"

definition customer2 :: User where
  "customer2 = \<lparr>u_id = ''u-customer2'', u_username = ''customer2'', u_password = ''zz.5a17'',
                u_role = Role_user\<rparr>"

definition order1 :: Order where
  "order1 =
     \<lparr> o_id = ''o-1'', o_orderNumber = ''ECK-1-AAA'', o_userId = ''u-customer1'',
       o_vendorId = ''v-1'', o_deliveryPersonId = None, o_status = Pending,
       o_totalAmount = ''250.00'', o_deliveryFee = ''0.00'', o_paymentStatus = Payment_pending,
       o_deliveryAddress = ''321 Customer Road'', o_pickupAddress = ''456 Vendor Avenue'',
       o_orderType = ''catalog'', o_specialInstructions = None,
       o_estimatedDeliveryTime = None, o_actualDeliveryTime = None, o_createdAt = 1000 \<rparr>"

definition order2 :: Order where
  "order2 = order1\<lparr> o_id := ''o-2'', o_orderNumber := ''ECK-2-BBB'',
                    o_deliveryPersonId := Some ''u-delivery1'', o_status := Delivered,
                    o_actualDeliveryTime := Some 5000, o_createdAt := 2000 \<rparr>"

definition order3 :: Order where
  "order3 = order1\<lparr> o_id := ''o-3'', o_orderNumber := ''ECK-3-CCC'',
                    o_deliveryPersonId := Some ''u-delivery1'', o_status := In_transit,
                    o_createdAt := 3000 \<rparr>"

text \<open>
  The reading of decimals in the sample database: up to eight digits, alone or followed by
  a point and two digits, stored with two decimals; every other text is refused.
\<close>

definition is_digit :: "char \<Rightarrow> bool" where
  "is_digit c = (c \<in> set ''0123456789'')"

definition demo_numeric :: "string \<Rightarrow> string option" where
  "demo_numeric s =
     (let whole = takeWhile (\<lambda>c. c \<noteq> CHR ''.'') s;
          rest = dropWhile (\<lambda>c. c \<noteq> CHR ''.'') s
      in if whole = [] \<or> 8 < length whole \<or> \<not> list_all is_digit whole then None
         else if rest = [] then Some (whole @ ''.00'')
         else if length rest = 3 \<and> list_all is_digit (tl rest) then Some s
         else None)"

definition demo_db :: db where
  "demo_db =
     \<lparr> users = [admin, vendor1, delivery1, delivery2, customer1, customer2],
       vendors = [\<lparr>v_id = ''v-1'', v_userId = ''u-vendor1''\<rparr>],
       products = [],
       orders = [order1, order2, order3],
       orderItems = [],
       chats = [],
       numeric_10_2 = demo_numeric \<rparr>"

definition demo_env :: env where
  "demo_env = \<lparr> gen_random_uuid = (\<lambda>k. replicate (Suc k) CHR ''n''), now = 9000,
                date_now = ''9000'', random_suffix = ''X7Q'' \<rparr>"

text \<open>A key derivation standing in for \<^verbatim>\<open>scrypt\<close> where a concrete one is needed.\<close>

definition demo_kdf :: kdf where
  "demo_kdf pass salt keylen = replicate keylen (word_of_nat (length pass + length salt))"

text \<open>
  A subscription as the specification has it: the connection has joined the order's room.
\<close>

definition spec_subscribed :: "WebSocket \<Rightarrow> string \<Rightarrow> bool" where
  "spec_subscribed ws orderId = (ws_orderId ws = Some (JString orderId))"

text \<open>
  A new open connection, the frame \<^verbatim>\<open>{ type: "join_order", orderId }\<close>, and a server
  with two open connections, the first joined to order \<open>o-1\<close>, the second to \<open>o-3\<close>.
\<close>

definition fresh_ws :: WebSocket where
  "fresh_ws = \<lparr>readyState = OPEN, ws_orderId = None, ws_sent = []\<rparr>"

definition join_order :: "string \<Rightarrow> json" where
  "join_order orderId = JObject [(''type'', JString ''join_order''), (''orderId'', JString orderId)]"

definition demo_server :: server where
  "demo_server =
     \<lparr> database = demo_db,
       wss_clients = [on_message fresh_ws (Some (join_order ''o-1'')),
                      on_message fresh_ws (Some (join_order ''o-3''))] \<rparr>"

definition chat_body :: "string \<Rightarrow> string option \<Rightarrow> string \<Rightarrow> string \<Rightarrow> ChatBody" where
  "chat_body orderId senderId receiverId message =
     \<lparr> cb_orderId = Some orderId, cb_senderId = senderId, cb_receiverId = Some receiverId,
       cb_message = Some message, cb_isRead = None \<rparr>"

text \<open>An order for one pizza from the shop, with the \<^verbatim>\<open>userId\<close> the client chooses to send.\<close>

definition demo_order_body :: "string option \<Rightarrow> OrderBody" where
  "demo_order_body userId =
     \<lparr> ob_columns =
         no_updates\<lparr> upd_userId := userId, upd_vendorId := Some ''v-1'',
                     upd_totalAmount := Some ''99.00'',
                     upd_deliveryAddress := Some ''321 Customer Road'',
                     upd_pickupAddress := Some ''456 Vendor Avenue'' \<rparr>,
       ob_items =
         Some [\<lparr> ii_orderId = None, ii_productId = None, ii_productName = Some ''Margherita'',
                  ii_quantity = Some 1, ii_price = Some ''99.00'',
                  ii_totalPrice = Some ''99.00'' \<rparr>] \<rparr>"

section \<open>Properties of PUT /api/orders/:id\<close>

lemmas demo_defs =
  demo_db_def admin_def vendor1_def delivery1_def delivery2_def customer1_def customer2_def
  order1_def order2_def order3_def

lemmas put_api_orders_defs =
  put_api_orders_def getOrder_def canUpdate_def getVendorByUserId_def updateOrder_def
  updates_foreign_keys_def references_user_def references_vendor_def set_updates_def
  status_body_def deliveryPerson_body_def no_updates_def null_or_absent_def
  written_texts_def read_numeric_def Let_def

lemma set_updates_status_body: "set_updates (status_body s) row = row\<lparr>o_status := s\<rparr>"
  by (simp add: set_updates_def status_body_def no_updates_def)

lemma o_id_set_updates: "o_id (set_updates updates row) = o_id row"
  by (simp add: set_updates_def)

lemma find_rewritten:
  "find (\<lambda>row. o_id row = ident)
     (map (\<lambda>row. if o_id row = ident then set_updates updates row else row) rows) =
   map_option (set_updates updates) (find (\<lambda>row. o_id row = ident) rows)"
  by (induction rows) (simp_all add: o_id_set_updates)

lemma plain_update_status_body: "plain_update st (status_body s)"
  by (simp add: plain_update_def updates_foreign_keys_def written_texts_def status_body_def
        no_updates_def)

lemma plain_update_deliveryPerson_body:
  assumes "case agent of None \<Rightarrow> True | Some a \<Rightarrow> references_user st a"
  shows "plain_update st (deliveryPerson_body agent)"
  using assms
  by (simp add: plain_update_def updates_foreign_keys_def written_texts_def
        deliveryPerson_body_def no_updates_def split: option.splits)

lemma updateOrder_plain:
  assumes "plain_update st updates"
  shows "updateOrder st ident updates =
    Inr (map_option (set_updates updates) (find (\<lambda>row. o_id row = ident) (orders st)),
         st\<lparr>orders := map (\<lambda>row. if o_id row = ident then set_updates updates row else row)
                          (orders st)\<rparr>)"
proof -
  have "updates\<lparr>upd_totalAmount := upd_totalAmount updates,
                upd_deliveryFee := upd_deliveryFee updates\<rparr> = updates"
    by simp
  with assms have same: "updates\<lparr>upd_totalAmount := None, upd_deliveryFee := None\<rparr> = updates"
    by (simp add: plain_update_def)
  from assms show ?thesis
    by (simp add: plain_update_def updateOrder_def null_or_absent_def read_numeric_def
          find_rewritten same Let_def)
qed

text \<open>
  What the handler answers to an authenticated request for an existing order: with the
  permission and a plain update, the rewritten row and the rewritten table; without the
  permission, 403 and the state as it was.
\<close>

lemma put_api_orders_permitted:
  assumes "req_user req = Some actor"
    and "getOrder st (req_params_id req) = Some order"
    and "canUpdate st actor order"
    and "plain_update st (req_body req)"
  shows "put_api_orders st req =
    (Success 200 (Some (set_updates (req_body req) order)),
     st\<lparr>orders := map (\<lambda>row. if o_id row = req_params_id req
                              then set_updates (req_body req) row else row) (orders st)\<rparr>)"
proof -
  have "find (\<lambda>row. o_id row = req_params_id req) (orders st) = Some order"
    using assms(2) by (simp add: getOrder_def)
  with assms(1,2,3) updateOrder_plain [OF assms(4), of "req_params_id req"] show ?thesis
    by (simp add: put_api_orders_def)
qed

lemma put_api_orders_denied:
  assumes "req_user req = Some actor"
    and "getOrder st (req_params_id req) = Some order"
    and "\<not> canUpdate st actor order"
  shows "put_api_orders st req = (Failure 403 ''Permission denied'', st)"
  using assms by (simp add: put_api_orders_def)

lemma getOrder_rewritten:
  assumes "getOrder st ident = Some order"
  shows "getOrder
           (st\<lparr>orders := map (\<lambda>row. if o_id row = ident then set_updates updates row else row)
                            (orders st)\<rparr>) ident =
         Some (set_updates updates order)"
  using assms by (simp add: getOrder_def find_rewritten)

lemma put_api_orders_stored:
  assumes "req_user req = Some actor"
    and "getOrder st (req_params_id req) = Some order"
    and "canUpdate st actor order"
    and "plain_update st (req_body req)"
  shows "fst (put_api_orders st req) = Success 200 (Some (set_updates (req_body req) order))"
    and "getOrder (snd (put_api_orders st req)) (req_params_id req) =
         Some (set_updates (req_body req) order)"
  using assms by (simp_all add: put_api_orders_permitted getOrder_rewritten)

text \<open>The answers of the handler: 200 with the row, or 400, 401, 403, 404 with a message.\<close>

lemma put_api_orders_failures:
  assumes "fst (put_api_orders st req) = Failure n m"
  shows "n \<in> {400, 401, 403, 404}"
  using assms
  by (auto simp: put_api_orders_def split: option.splits if_splits sum.splits prod.splits)

text \<open>A request that succeeds came from a user, for an order in the store, with the permission.\<close>

lemma put_api_orders_succeeds:
  assumes "succeeds (fst (put_api_orders st req))"
  shows "\<exists>actor order. req_user req = Some actor \<and>
           getOrder st (req_params_id req) = Some order \<and> canUpdate st actor order"
  using assms
  by (auto simp: put_api_orders_def succeeds_def split: option.splits if_splits)

text \<open>The clause for vendors decides: the shop's owner may update an order of the shop.\<close>

lemma canUpdate_vendor:
  "canUpdate demo_db vendor1 order1 \<and> \<not> canUpdate demo_db delivery2 order1"
  by (simp add: canUpdate_def getVendorByUserId_def demo_defs)

text \<open>
  C1. For an authenticated actor, an existing order and a requested status, the update
  succeeds exactly when the handler's permission check holds: the actor is an administrator,
  or is the order's \<^verbatim>\<open>userId\<close>, or is the order's \<^verbatim>\<open>deliveryPersonId\<close>, or is a
  vendor whose vendor row is the order's \<^verbatim>\<open>vendorId\<close>. Neither the requested nor the
  current status takes part. Without the permission the answer is 403 and nothing changes.
\<close>

theorem put_api_orders_succeeds_iff_canUpdate:
  assumes "req_user req = Some actor"
    and "getOrder st (req_params_id req) = Some order"
    and "req_body req = status_body requested"
  shows "(succeeds (fst (put_api_orders st req)) \<longleftrightarrow> canUpdate st actor order) \<and>
         (\<not> canUpdate st actor order \<longrightarrow>
            put_api_orders st req = (Failure 403 ''Permission denied'', st))"
proof (cases "canUpdate st actor order")
  case True
  with assms show ?thesis
    by (simp add: put_api_orders_permitted plain_update_status_body succeeds_def)
next
  case False
  with assms show ?thesis
    by (simp add: put_api_orders_denied succeeds_def)
qed

text \<open>
  The customer of order \<open>o-1\<close> asks for \<open>Delivered\<close> while the order is \<open>Pending\<close>, and
  the customer of another order asks for \<open>Cancelled\<close> on \<open>o-1\<close>: the first succeeds, the
  second is answered 403.
\<close>

theorem put_api_orders_succeeds_iff_canUpdate_witness:
  "succeeds (fst (put_api_orders demo_db
      \<lparr>req_user = Some customer1, req_params_id = ''o-1'', req_body = status_body Delivered\<rparr>)) \<and>
   canUpdate demo_db customer1 order1 \<and>
   put_api_orders demo_db
      \<lparr>req_user = Some customer2, req_params_id = ''o-1'', req_body = status_body Cancelled\<rparr> =
     (Failure 403 ''Permission denied'', demo_db) \<and>
   \<not> canUpdate demo_db customer2 order1"
proof -
  have found: "getOrder demo_db ''o-1'' = Some order1"
    by (simp add: getOrder_def demo_defs)
  have yes: "canUpdate demo_db customer1 order1"
    by (simp add: canUpdate_def demo_defs)
  have no: "\<not> canUpdate demo_db customer2 order1"
    by (simp add: canUpdate_def getVendorByUserId_def demo_defs)
  show ?thesis
    using yes no
      put_api_orders_succeeds_iff_canUpdate
        [of "\<lparr>req_user = Some customer1, req_params_id = ''o-1'',
              req_body = status_body Delivered\<rparr>" customer1 demo_db order1 Delivered]
      put_api_orders_succeeds_iff_canUpdate
        [of "\<lparr>req_user = Some customer2, req_params_id = ''o-1'',
              req_body = status_body Cancelled\<rparr>" customer2 demo_db order1 Cancelled]
    by (simp add: found)
qed

text \<open>
  Against C1 as stated: the customer's request for \<open>Delivered\<close> on the pending order
  \<open>o-1\<close> succeeds, although the guard's rule for a customer covers only a cancellation and
  the graph has no edge from \<open>Pending\<close> to \<open>Delivered\<close>.
\<close>

theorem put_api_orders_guard_counterexample:
  "fst (put_api_orders demo_db
      \<lparr>req_user = Some customer1, req_params_id = ''o-1'', req_body = status_body Delivered\<rparr>) =
     Success 200 (Some (order1\<lparr>o_status := Delivered\<rparr>)) \<and>
   \<not> spec_guard_covers demo_db customer1 order1 Delivered \<and>
   \<not> spec_graph_valid (o_status order1) Delivered"
  by (simp add: put_api_orders_defs spec_guard_covers_def spec_graph_valid_def demo_defs)

text \<open>
  C2. No request is refused for its transition. With the permission, any requested status
  is stored and returned whatever the current status, a skipped stage and the current
  status itself included; and the handler's failures are those of the codes 400, 401, 403
  and 404, none of which reports a transition.
\<close>

theorem put_api_orders_accepts_any_status:
  assumes "req_user req = Some actor"
    and "getOrder st (req_params_id req) = Some order"
    and "canUpdate st actor order"
    and "req_body req = status_body requested"
  shows "fst (put_api_orders st req) = Success 200 (Some (order\<lparr>o_status := requested\<rparr>)) \<and>
         getOrder (snd (put_api_orders st req)) (req_params_id req) =
           Some (order\<lparr>o_status := requested\<rparr>) \<and>
         (\<forall>st' req' n m. fst (put_api_orders st' req') = Failure n m \<longrightarrow>
            n \<in> {400, 401, 403, 404})"
proof (intro conjI allI impI)
  show "fst (put_api_orders st req) = Success 200 (Some (order\<lparr>o_status := requested\<rparr>))"
    and "getOrder (snd (put_api_orders st req)) (req_params_id req) =
           Some (order\<lparr>o_status := requested\<rparr>)"
    using put_api_orders_stored [OF assms(1,2,3)] assms(4)
    by (simp_all add: plain_update_status_body set_updates_status_body)
next
  fix st' req' n m
  assume "fst (put_api_orders st' req') = Failure n m"
  then show "n \<in> {400, 401, 403, 404}"
    by (rule put_api_orders_failures)
qed

theorem put_api_orders_accepts_any_status_witness:
  "fst (put_api_orders demo_db
      \<lparr>req_user = Some admin, req_params_id = ''o-2'', req_body = status_body Pending\<rparr>) =
     Success 200 (Some (order2\<lparr>o_status := Pending\<rparr>)) \<and>
   getOrder (snd (put_api_orders demo_db
      \<lparr>req_user = Some admin, req_params_id = ''o-2'', req_body = status_body Pending\<rparr>)) ''o-2'' =
     Some (order2\<lparr>o_status := Pending\<rparr>)"
proof -
  have found: "getOrder demo_db ''o-2'' = Some order2"
    by (simp add: getOrder_def demo_defs)
  have yes: "canUpdate demo_db admin order2"
    by (simp add: canUpdate_def demo_defs)
  show ?thesis
    using put_api_orders_accepts_any_status
        [of "\<lparr>req_user = Some admin, req_params_id = ''o-2'',
              req_body = status_body Pending\<rparr>" admin demo_db order2 Pending]
    by (simp add: found yes)
qed

text \<open>
  Against C2 as stated: the administrator re-submits \<open>Pending\<close> for the pending order
  \<open>o-1\<close>, and asks for \<open>Delivered\<close> on it; neither status is the successor of
  \<open>Pending\<close> nor \<open>Cancelled\<close>, and both requests succeed.
\<close>

theorem put_api_orders_same_status_counterexample:
  "o_status order1 = Pending \<and>
   graph_successor Pending \<noteq> Some Pending \<and> Pending \<noteq> Cancelled \<and>
   fst (put_api_orders demo_db
      \<lparr>req_user = Some admin, req_params_id = ''o-1'', req_body = status_body Pending\<rparr>) =
     Success 200 (Some order1) \<and>
   graph_successor Pending \<noteq> Some Delivered \<and> Delivered \<noteq> Cancelled \<and>
   fst (put_api_orders demo_db
      \<lparr>req_user = Some admin, req_params_id = ''o-1'', req_body = status_body Delivered\<rparr>) =
     Success 200 (Some (order1\<lparr>o_status := Delivered\<rparr>))"
  by (simp add: put_api_orders_defs demo_defs)

text \<open>
  C5. Through this handler \<^verbatim>\<open>deliveryPersonId\<close> is written by any actor who has the
  permission (an administrator, the order's customer, the delivery person assigned so
  far, the order's vendor), at any status and over any earlier value: a body that carries
  only \<^verbatim>\<open>deliveryPersonId\<close>, a user's identifier or \<^verbatim>\<open>null\<close>, is stored as
  sent. An actor without the permission is answered 403 and changes nothing.
\<close>

theorem put_api_orders_sets_deliveryPersonId:
  assumes "req_user req = Some actor"
    and "getOrder st (req_params_id req) = Some order"
    and "req_body req = deliveryPerson_body agent"
    and "case agent of None \<Rightarrow> True | Some a \<Rightarrow> references_user st a"
  shows "(canUpdate st actor order \<longrightarrow>
            succeeds (fst (put_api_orders st req)) \<and>
            map_option o_deliveryPersonId
              (getOrder (snd (put_api_orders st req)) (req_params_id req)) = Some agent) \<and>
         (\<not> canUpdate st actor order \<longrightarrow>
            put_api_orders st req = (Failure 403 ''Permission denied'', st))"
proof (cases "canUpdate st actor order")
  case True
  have plain: "plain_update st (req_body req)"
    using assms(3,4) by (simp add: plain_update_deliveryPerson_body)
  have "o_deliveryPersonId (set_updates (req_body req) order) = agent"
    using assms(3) by (simp add: set_updates_def deliveryPerson_body_def)
  with True put_api_orders_stored [OF assms(1,2) True plain] show ?thesis
    by (simp add: succeeds_def)
next
  case False
  with put_api_orders_denied [OF assms(1,2)] show ?thesis
    by simp
qed

text \<open>
  The customer of the delivered order \<open>o-2\<close> replaces its delivery person; another
  customer asking for the same is answered 403.
\<close>

theorem put_api_orders_sets_deliveryPersonId_witness:
  "succeeds (fst (put_api_orders demo_db
      \<lparr>req_user = Some customer1, req_params_id = ''o-2'',
        req_body = deliveryPerson_body (Some ''u-delivery2'')\<rparr>)) \<and>
   map_option o_deliveryPersonId
     (getOrder (snd (put_api_orders demo_db
        \<lparr>req_user = Some customer1, req_params_id = ''o-2'',
          req_body = deliveryPerson_body (Some ''u-delivery2'')\<rparr>)) ''o-2'') =
     Some (Some ''u-delivery2'') \<and>
   put_api_orders demo_db
      \<lparr>req_user = Some customer2, req_params_id = ''o-2'',
        req_body = deliveryPerson_body (Some ''u-delivery2'')\<rparr> =
     (Failure 403 ''Permission denied'', demo_db)"
proof -
  have found: "getOrder demo_db ''o-2'' = Some order2"
    by (simp add: getOrder_def demo_defs)
  have fk: "references_user demo_db ''u-delivery2''"
    by (simp add: references_user_def demo_defs)
  have yes: "canUpdate demo_db customer1 order2"
    by (simp add: canUpdate_def demo_defs)
  have no: "\<not> canUpdate demo_db customer2 order2"
    by (simp add: canUpdate_def getVendorByUserId_def demo_defs)
  show ?thesis
    using yes no
      put_api_orders_sets_deliveryPersonId
        [of "\<lparr>req_user = Some customer1, req_params_id = ''o-2'',
              req_body = deliveryPerson_body (Some ''u-delivery2'')\<rparr>"
            customer1 demo_db order2 "Some ''u-delivery2''"]
      put_api_orders_sets_deliveryPersonId
        [of "\<lparr>req_user = Some customer2, req_params_id = ''o-2'',
              req_body = deliveryPerson_body (Some ''u-delivery2'')\<rparr>"
            customer2 demo_db order2 "Some ''u-delivery2''"]
    by (simp add: found fk)
qed

text \<open>
  Against C5 as stated: order \<open>o-2\<close> is delivered and assigned to \<open>u-delivery1\<close>; its
  customer, who is no administrator, assigns it to \<open>u-delivery2\<close>.
\<close>

theorem deliveryPersonId_reassigned_counterexample:
  "u_role customer1 = Role_user \<and> o_status order2 = Delivered \<and>
   o_deliveryPersonId order2 = Some ''u-delivery1'' \<and>
   getOrder demo_db ''o-2'' = Some order2 \<and>
   getOrder (snd (put_api_orders demo_db
      \<lparr>req_user = Some customer1, req_params_id = ''o-2'',
        req_body = deliveryPerson_body (Some ''u-delivery2'')\<rparr>)) ''o-2'' =
     Some (order2\<lparr>o_deliveryPersonId := Some ''u-delivery2''\<rparr>)"
  by (simp add: put_api_orders_defs demo_defs)

text \<open>
  C6. A successful status update persists the requested status and leaves
  \<^verbatim>\<open>actualDeliveryTime\<close> as it was, for every requested status, \<open>Delivered\<close>
  included: the time of delivery is never stamped.
\<close>

theorem put_api_orders_actualDeliveryTime:
  assumes "req_body req = status_body requested"
    and "succeeds (fst (put_api_orders st req))"
  shows "\<exists>order updated.
           getOrder st (req_params_id req) = Some order \<and>
           fst (put_api_orders st req) = Success 200 (Some updated) \<and>
           getOrder (snd (put_api_orders st req)) (req_params_id req) = Some updated \<and>
           o_status updated = requested \<and>
           o_actualDeliveryTime updated = o_actualDeliveryTime order"
proof -
  from put_api_orders_succeeds [OF assms(2)] obtain actor order
    where actor: "req_user req = Some actor"
      and order: "getOrder st (req_params_id req) = Some order"
      and allowed: "canUpdate st actor order"
    by blast
  have plain: "plain_update st (req_body req)"
    using assms(1) by (simp add: plain_update_status_body)
  have "set_updates (req_body req) order = order\<lparr>o_status := requested\<rparr>"
    using assms(1) by (simp add: set_updates_status_body)
  with put_api_orders_stored [OF actor order allowed plain] order show ?thesis
    by simp
qed

theorem put_api_orders_actualDeliveryTime_witness:
  "\<exists>updated.
     fst (put_api_orders demo_db
        \<lparr>req_user = Some delivery1, req_params_id = ''o-3'', req_body = status_body Delivered\<rparr>) =
       Success 200 (Some updated) \<and>
     getOrder (snd (put_api_orders demo_db
        \<lparr>req_user = Some delivery1, req_params_id = ''o-3'', req_body = status_body Delivered\<rparr>))
        ''o-3'' = Some updated \<and>
     o_status updated = Delivered \<and> o_actualDeliveryTime updated = None"
proof -
  have found: "getOrder demo_db ''o-3'' = Some order3"
    by (simp add: getOrder_def demo_defs)
  have went: "succeeds (fst (put_api_orders demo_db
        \<lparr>req_user = Some delivery1, req_params_id = ''o-3'', req_body = status_body Delivered\<rparr>))"
    by (simp add: put_api_orders_defs succeeds_def demo_defs)
  have before: "o_actualDeliveryTime order3 = None"
    by (simp add: demo_defs)
  show ?thesis
    using put_api_orders_actualDeliveryTime
        [of "\<lparr>req_user = Some delivery1, req_params_id = ''o-3'',
              req_body = status_body Delivered\<rparr>" Delivered demo_db, OF _ went]
    by (auto simp: found before)
qed

text \<open>
  Against C6 as stated: the assigned delivery person moves order \<open>o-3\<close> from
  \<open>In_transit\<close> to \<open>Delivered\<close>; the stored order is delivered and its
  \<^verbatim>\<open>actualDeliveryTime\<close> is still \<^verbatim>\<open>null\<close>.
\<close>

theorem delivered_not_stamped_counterexample:
  "o_status order3 = In_transit \<and> graph_successor In_transit = Some Delivered \<and>
   spec_guard_covers demo_db delivery1 order3 Delivered \<and>
   map_option o_status
     (getOrder (snd (put_api_orders demo_db
        \<lparr>req_user = Some delivery1, req_params_id = ''o-3'', req_body = status_body Delivered\<rparr>))
        ''o-3'') = Some Delivered \<and>
   map_option o_actualDeliveryTime
     (getOrder (snd (put_api_orders demo_db
        \<lparr>req_user = Some delivery1, req_params_id = ''o-3'', req_body = status_body Delivered\<rparr>))
        ''o-3'') = Some None"
  by (simp add: put_api_orders_defs spec_guard_covers_def demo_defs)



section \<open>Properties of the chat route and the WebSocket server\<close>

lemmas post_api_chats_defs =
  post_api_chats_def insertChatSchema_parse_def createChat_def references_order_def
  references_user_def text_in_def emit_chat_def send_def on_message_def property_def
  join_order_def fresh_ws_def demo_server_def demo_env_def chat_body_def Let_def

lemma post_api_chats_created:
  assumes "req_user req = Some sender"
    and "cb_orderId (req_body req) = Some orderId"
    and "cb_receiverId (req_body req) = Some receiverId"
    and "cb_message (req_body req) = Some message"
    and "cb_isRead (req_body req) = None \<or> (\<exists>b. cb_isRead (req_body req) = Some (JBool b))"
    and "text_in message"
    and "references_order (database srv) orderId"
    and "references_user (database srv) (u_id sender)"
    and "references_user (database srv) receiverId"
    and "gen_random_uuid e 0 \<notin> set (map c_id (chats (database srv)))"
  shows "post_api_chats e srv req =
    (let chat = \<lparr> c_id = gen_random_uuid e 0, c_orderId = orderId, c_senderId = u_id sender,
                   c_receiverId = receiverId, c_message = message,
                   c_isRead = (cb_isRead (req_body req) = Some (JBool True)),
                   c_createdAt = now e \<rparr>
     in (Success 201 chat,
         srv\<lparr>database := (database srv)\<lparr>chats := chats (database srv) @ [chat]\<rparr>,
             wss_clients := emit_chat chat (wss_clients srv)\<rparr>))"
proof -
  from assms(5) show ?thesis
  proof
    assume "cb_isRead (req_body req) = None"
    with assms(1-4,6-10) show ?thesis
      by (simp add: post_api_chats_def insertChatSchema_parse_def createChat_def Let_def)
  next
    assume "\<exists>b. cb_isRead (req_body req) = Some (JBool b)"
    then obtain b where "cb_isRead (req_body req) = Some (JBool b)"
      by blast
    with assms(1-4,6-10) show ?thesis
      by (simp add: post_api_chats_def insertChatSchema_parse_def createChat_def Let_def)
  qed
qed

lemma post_api_chats_failures:
  assumes "fst (post_api_chats e srv req) = Failure n m"
  shows "n \<in> {400, 401}"
  using assms
  by (auto simp: post_api_chats_def split: option.splits sum.splits prod.splits)

lemma insertChatSchema_parse_senderId:
  assumes "insertChatSchema_parse (body\<lparr>cb_senderId := Some ident\<rparr>) = Inr validated"
  shows "ic_senderId validated = ident"
  using assms
  by (auto simp: insertChatSchema_parse_def split: option.splits json.splits)

lemma createChat_senderId:
  assumes "createChat e st validated = Inr (chat, st')"
  shows "c_senderId chat = ic_senderId validated \<and> chats st' = chats st @ [chat]"
  using assms
  by (auto simp: createChat_def Let_def split: if_splits)

lemma post_api_chats_success:
  assumes "req_user req = Some sender"
    and "fst (post_api_chats e srv req) = Success n chat"
  shows "n = 201 \<and> c_senderId chat = u_id sender \<and>
         chats (database (snd (post_api_chats e srv req))) = chats (database srv) @ [chat]"
proof (cases "insertChatSchema_parse ((req_body req)\<lparr>cb_senderId := Some (u_id sender)\<rparr>)")
  case (Inl err)
  with assms show ?thesis
    by (simp add: post_api_chats_def)
next
  case (Inr validated)
  note parsed = this
  show ?thesis
  proof (cases "createChat e (database srv) validated")
    case (Inl err)
    with assms parsed show ?thesis
      by (simp add: post_api_chats_def)
  next
    case (Inr result)
    obtain created st' where result: "result = (created, st')"
      by (cases result)
    from assms parsed Inr result have "n = 201" and "chat = created"
      by (simp_all add: post_api_chats_def)
    with assms(1) parsed Inr result
      createChat_senderId [of e "database srv" validated created st']
      insertChatSchema_parse_senderId [OF parsed]
    show ?thesis
      by (simp add: post_api_chats_def)
  qed
qed

text \<open>
  What the widget sends, given a message that is not blank and a selected order of its
  list: a vendor and a delivery person address the order's customer, a customer addresses
  the order's delivery person when one is assigned, an administrator sends nothing.
\<close>

lemma handleSendMessage_sends:
  assumes "cw_selectedOrderId w = Some selected"
    and "selected \<noteq> []"
    and "trim (cw_message w) \<noteq> []"
    and "find (\<lambda>row. o_id row = selected) (cw_orders w) = Some order"
    and "cw_user w = Some user"
  shows "u_role user = Role_vendor \<or> u_role user = Role_delivery \<Longrightarrow> o_userId order \<noteq> [] \<Longrightarrow>
           handleSendMessage w =
             Some (chat_body selected None (o_userId order) (trim (cw_message w)))"
    and "u_role user = Role_user \<Longrightarrow> o_deliveryPersonId order = Some agent \<Longrightarrow> agent \<noteq> [] \<Longrightarrow>
           handleSendMessage w = Some (chat_body selected None agent (trim (cw_message w)))"
    and "u_role user = Role_admin \<Longrightarrow> handleSendMessage w = None"
  using assms by (auto simp: handleSendMessage_def chat_body_def Let_def)

text \<open>
  C4. The stored message takes its sender from the session and its receiver from the
  request body: a request by any authenticated user that names an existing order, an
  existing user as receiver, a message without a zero byte and no \<^verbatim>\<open>isRead\<close> but
  a boolean is stored with the receiver as sent. No request is answered 403. The receiver
  is chosen by role in the client's \<^verbatim>\<open>handleSendMessage\<close> before the request is
  made: with a message that is not blank and a selected order of its list, a vendor and a
  delivery person address the order's customer, a customer addresses the order's delivery
  person when one is assigned, and an administrator sends nothing.
\<close>

theorem post_api_chats_receiver_from_body:
  assumes "req_user req = Some sender"
    and "cb_orderId (req_body req) = Some orderId"
    and "cb_receiverId (req_body req) = Some receiverId"
    and "cb_message (req_body req) = Some message"
    and "cb_isRead (req_body req) = None \<or> (\<exists>b. cb_isRead (req_body req) = Some (JBool b))"
    and "text_in message"
    and "references_order (database srv) orderId"
    and "references_user (database srv) (u_id sender)"
    and "references_user (database srv) receiverId"
    and "gen_random_uuid e 0 \<notin> set (map c_id (chats (database srv)))"
  shows "(\<exists>chat. fst (post_api_chats e srv req) = Success 201 chat \<and>
            c_orderId chat = orderId \<and> c_senderId chat = u_id sender \<and>
            c_receiverId chat = receiverId \<and> c_message chat = message \<and>
            chats (database (snd (post_api_chats e srv req))) =
              chats (database srv) @ [chat]) \<and>
         (\<forall>e' srv' req' m. fst (post_api_chats e' srv' req') \<noteq> Failure 403 m) \<and>
         (\<forall>w selected order user.
            cw_selectedOrderId w = Some selected \<and> selected \<noteq> [] \<and>
            trim (cw_message w) \<noteq> [] \<and>
            find (\<lambda>row. o_id row = selected) (cw_orders w) = Some order \<and>
            cw_user w = Some user \<longrightarrow>
            ((u_role user = Role_vendor \<or> u_role user = Role_delivery) \<and>
             o_userId order \<noteq> [] \<longrightarrow>
               handleSendMessage w =
                 Some (chat_body selected None (o_userId order) (trim (cw_message w)))) \<and>
            (\<forall>agent. u_role user = Role_user \<and> o_deliveryPersonId order = Some agent \<and>
               agent \<noteq> [] \<longrightarrow>
               handleSendMessage w =
                 Some (chat_body selected None agent (trim (cw_message w)))) \<and>
            (u_role user = Role_admin \<longrightarrow> handleSendMessage w = None))"
proof (intro conjI allI impI)
  from post_api_chats_created [OF assms] show "\<exists>chat. fst (post_api_chats e srv req) = Success 201 chat \<and>
            c_orderId chat = orderId \<and> c_senderId chat = u_id sender \<and>
            c_receiverId chat = receiverId \<and> c_message chat = message \<and>
            chats (database (snd (post_api_chats e srv req))) =
              chats (database srv) @ [chat]"
    by (simp add: Let_def)
next
  fix e' srv' req' m
  show "fst (post_api_chats e' srv' req') \<noteq> Failure 403 m"
    using post_api_chats_failures [of e' srv' req' 403 m] by auto
next
  fix w :: ChatWidget and selected order user
  assume widget: "cw_selectedOrderId w = Some selected \<and> selected \<noteq> [] \<and>
            trim (cw_message w) \<noteq> [] \<and>
            find (\<lambda>row. o_id row = selected) (cw_orders w) = Some order \<and>
            cw_user w = Some user"
  assume "(u_role user = Role_vendor \<or> u_role user = Role_delivery) \<and> o_userId order \<noteq> []"
  with widget show "handleSendMessage w =
      Some (chat_body selected None (o_userId order) (trim (cw_message w)))"
    using handleSendMessage_sends(1) [of w selected order user] by blast
next
  fix w :: ChatWidget and selected order user agent
  assume widget: "cw_selectedOrderId w = Some selected \<and> selected \<noteq> [] \<and>
            trim (cw_message w) \<noteq> [] \<and>
            find (\<lambda>row. o_id row = selected) (cw_orders w) = Some order \<and>
            cw_user w = Some user"
  assume "u_role user = Role_user \<and> o_deliveryPersonId order = Some agent \<and> agent \<noteq> []"
  with widget show "handleSendMessage w =
      Some (chat_body selected None agent (trim (cw_message w)))"
    using handleSendMessage_sends(2) [of w selected order user agent] by blast
next
  fix w :: ChatWidget and selected order user
  assume widget: "cw_selectedOrderId w = Some selected \<and> selected \<noteq> [] \<and>
            trim (cw_message w) \<noteq> [] \<and>
            find (\<lambda>row. o_id row = selected) (cw_orders w) = Some order \<and>
            cw_user w = Some user"
  assume "u_role user = Role_admin"
  with widget show "handleSendMessage w = None"
    using handleSendMessage_sends(3) [of w selected order user] by blast
qed

text \<open>
  The customer of order \<open>o-1\<close> writes to the vendor's user; the widget of the delivery
  person of order \<open>o-3\<close> addresses the order's customer, and the customer's widget the
  delivery person.
\<close>

theorem post_api_chats_receiver_from_body_witness:
  "(\<exists>chat. fst (post_api_chats demo_env demo_server
        \<lparr>req_user = Some customer1, req_params_id = [],
          req_body = chat_body ''o-1'' None ''u-vendor1'' ''hello''\<rparr>) = Success 201 chat \<and>
      c_orderId chat = ''o-1'' \<and> c_senderId chat = ''u-customer1'' \<and>
      c_receiverId chat = ''u-vendor1'') \<and>
   handleSendMessage
      \<lparr>cw_user = Some delivery1, cw_orders = [order3], cw_selectedOrderId = Some ''o-3'',
        cw_message = ''  at the door ''\<rparr> =
     Some (chat_body ''o-3'' None ''u-customer1'' ''at the door'') \<and>
   handleSendMessage
      \<lparr>cw_user = Some customer1, cw_orders = [order3], cw_selectedOrderId = Some ''o-3'',
        cw_message = ''  at the door ''\<rparr> =
     Some (chat_body ''o-3'' None ''u-delivery1'' ''at the door'')"
proof -
  let ?req = "\<lparr>req_user = Some customer1, req_params_id = [],
                req_body = chat_body ''o-1'' None ''u-vendor1'' ''hello''\<rparr>"
  have trimmed: "trim ''  at the door '' = ''at the door''"
    by code_simp
  have sender: "req_user ?req = Some customer1"
    by simp
  have body: "cb_orderId (req_body ?req) = Some ''o-1''"
    "cb_receiverId (req_body ?req) = Some ''u-vendor1''"
    "cb_message (req_body ?req) = Some ''hello''"
    "cb_isRead (req_body ?req) = None \<or> (\<exists>b. cb_isRead (req_body ?req) = Some (JBool b))"
    by (simp_all add: chat_body_def)
  have refs: "text_in ''hello''"
    "references_order (database demo_server) ''o-1''"
    "references_user (database demo_server) (u_id customer1)"
    "references_user (database demo_server) ''u-vendor1''"
    "gen_random_uuid demo_env 0 \<notin> set (map c_id (chats (database demo_server)))"
    by (simp_all add: references_order_def references_user_def text_in_def demo_server_def
          demo_env_def demo_defs)
  have widget:
    "o_id order3 = ''o-3''"
    "o_userId order3 = ''u-customer1''" "o_deliveryPersonId order3 = Some ''u-delivery1''"
    "u_role delivery1 = Role_delivery" "u_role customer1 = Role_user"
    "u_id customer1 = ''u-customer1''"
    by (simp_all add: demo_defs)
  note claim = post_api_chats_receiver_from_body [OF sender body refs]
  from claim have stored: "\<exists>chat. fst (post_api_chats demo_env demo_server ?req) =
        Success 201 chat \<and>
      c_orderId chat = ''o-1'' \<and> c_senderId chat = ''u-customer1'' \<and>
      c_receiverId chat = ''u-vendor1''"
    unfolding widget(6) by blast
  from claim have by_role: "\<And>w selected order user.
        cw_selectedOrderId w = Some selected \<and> selected \<noteq> [] \<and>
        trim (cw_message w) \<noteq> [] \<and>
        find (\<lambda>row. o_id row = selected) (cw_orders w) = Some order \<and>
        cw_user w = Some user \<Longrightarrow>
        ((u_role user = Role_vendor \<or> u_role user = Role_delivery) \<and>
         o_userId order \<noteq> [] \<longrightarrow>
           handleSendMessage w =
             Some (chat_body selected None (o_userId order) (trim (cw_message w)))) \<and>
        (\<forall>agent. u_role user = Role_user \<and> o_deliveryPersonId order = Some agent \<and>
           agent \<noteq> [] \<longrightarrow>
           handleSendMessage w =
             Some (chat_body selected None agent (trim (cw_message w))))"
    by blast
  have first: "handleSendMessage
      \<lparr>cw_user = Some delivery1, cw_orders = [order3], cw_selectedOrderId = Some ''o-3'',
        cw_message = ''  at the door ''\<rparr> =
     Some (chat_body ''o-3'' None ''u-customer1'' ''at the door'')"
    using by_role [of "\<lparr>cw_user = Some delivery1, cw_orders = [order3],
        cw_selectedOrderId = Some ''o-3'', cw_message = ''  at the door ''\<rparr>"
        "''o-3''" order3 delivery1]
    by (simp add: trimmed widget)
  have second: "handleSendMessage
      \<lparr>cw_user = Some customer1, cw_orders = [order3], cw_selectedOrderId = Some ''o-3'',
        cw_message = ''  at the door ''\<rparr> =
     Some (chat_body ''o-3'' None ''u-delivery1'' ''at the door'')"
    using by_role [of "\<lparr>cw_user = Some customer1, cw_orders = [order3],
        cw_selectedOrderId = Some ''o-3'', cw_message = ''  at the door ''\<rparr>"
        "''o-3''" order3 customer1]
    by (simp add: trimmed widget)
  from stored first second show ?thesis
    by blast
qed

text \<open>
  Against C4 as stated: \<open>customer2\<close> and \<open>delivery2\<close> take no part in order \<open>o-1\<close>;
  the first sends a message on it that names the second as receiver, and the message is
  stored with the receiver the client named.
\<close>

theorem post_api_chats_outsider_counterexample:
  "\<not> spec_participant demo_db customer2 order1 \<and>
   \<not> spec_participant demo_db delivery2 order1 \<and>
   getOrder demo_db ''o-1'' = Some order1 \<and>
   fst (post_api_chats demo_env demo_server
      \<lparr>req_user = Some customer2, req_params_id = [],
        req_body = chat_body ''o-1'' None ''u-delivery2'' ''hello''\<rparr>) =
     Success 201
       \<lparr> c_id = ''n'', c_orderId = ''o-1'', c_senderId = ''u-customer2'',
         c_receiverId = ''u-delivery2'', c_message = ''hello'', c_isRead = False,
         c_createdAt = 9000 \<rparr>"
  by (simp add: post_api_chats_defs spec_participant_def getVendorByUserId_def getOrder_def
        demo_defs)

text \<open>
  C3, at the input where the code departs from it. Two connections are open, the first
  joined to order \<open>o-1\<close>, the second to order \<open>o-3\<close>. A message on order \<open>o-1\<close> is
  posted: the frame is sent to both, also to the one that never joined \<open>o-1\<close>.
\<close>

theorem emit_chat_ignores_rooms:
  "map ws_orderId (wss_clients demo_server) = [Some (JString ''o-1''), Some (JString ''o-3'')] \<and>
   \<not> spec_subscribed (wss_clients demo_server ! 1) ''o-1'' \<and>
   map (\<lambda>client. map (\<lambda>frame. (f_type frame, c_orderId (f_data frame))) (ws_sent client))
     (wss_clients (snd (post_api_chats demo_env demo_server
        \<lparr>req_user = Some customer1, req_params_id = [],
          req_body = chat_body ''o-1'' None ''u-vendor1'' ''hello''\<rparr>))) =
     [[(''chat_message'', ''o-1'')], [(''chat_message'', ''o-1'')]]"
  by (simp add: post_api_chats_defs spec_subscribed_def demo_defs)

text \<open>
  C7. The channel accepts a subscription frame that is a JSON object whose \<^verbatim>\<open>type\<close>
  is the string \<^verbatim>\<open>join_order\<close>, and records the frame's \<^verbatim>\<open>orderId\<close> on the
  connection, whatever it is: the handler reads neither the database nor an actor, so no
  frame is rejected for its order. Every other message (an object without that
  \<^verbatim>\<open>type\<close>, a value that is no object, text that does not parse) leaves the
  connection as it was.
\<close>

theorem on_message_join_order:
  "on_message ws (Some (JObject members)) =
     (if map_of (rev members) ''type'' = Some (JString ''join_order'')
      then ws\<lparr>ws_orderId := map_of (rev members) ''orderId''\<rparr>
      else ws) \<and>
   on_message ws None = ws \<and>
   (\<forall>v. (\<forall>ms. v \<noteq> JObject ms) \<longrightarrow> on_message ws (Some v) = ws)"
proof (intro conjI allI impI)
  show "on_message ws (Some (JObject members)) =
     (if map_of (rev members) ''type'' = Some (JString ''join_order'')
      then ws\<lparr>ws_orderId := map_of (rev members) ''orderId''\<rparr>
      else ws)"
    by (simp add: on_message_def property_def)
next
  show "on_message ws None = ws"
    by (simp add: on_message_def)
next
  fix v
  assume "\<forall>ms. v \<noteq> JObject ms"
  then show "on_message ws (Some v) = ws"
    by (cases v) (simp_all add: on_message_def property_def)
qed

text \<open>
  A frame of the accepted shape for an order that is not in the store is recorded; a
  bare string is ignored.
\<close>

theorem on_message_join_order_witness:
  "on_message fresh_ws (Some (join_order ''no-such-order'')) =
     fresh_ws\<lparr>ws_orderId := Some (JString ''no-such-order'')\<rparr> \<and>
   getOrder demo_db ''no-such-order'' = None \<and>
   on_message fresh_ws (Some (JString ''join_order'')) = fresh_ws"
proof -
  have "\<forall>ms. JString ''join_order'' \<noteq> JObject ms"
    by simp
  then show ?thesis
    using on_message_join_order
        [of fresh_ws "[(''type'', JString ''join_order''),
                       (''orderId'', JString ''no-such-order'')]"]
    by (simp add: join_order_def getOrder_def demo_defs)
qed

text \<open>
  Against C7 as stated: a frame \<^verbatim>\<open>{ action: "join_order", orderId: "o-1" }\<close> is not
  accepted, the connection stays unsubscribed; and \<open>customer2\<close>, who takes no part in
  order \<open>o-1\<close>, subscribes to it with \<^verbatim>\<open>{ type: "join_order", orderId: "o-1" }\<close> on a
  new connection, which the handler serves without knowing who is connected.
\<close>

theorem on_message_counterexample:
  "on_message fresh_ws
     (Some (JObject [(''action'', JString ''join_order''), (''orderId'', JString ''o-1'')])) =
     fresh_ws \<and>
   ws_orderId fresh_ws = None \<and>
   getOrder demo_db ''o-1'' = Some order1 \<and>
   \<not> spec_participant demo_db customer2 order1 \<and>
   spec_subscribed (on_message fresh_ws (Some (join_order ''o-1''))) ''o-1''"
  by (simp add: on_message_def property_def join_order_def fresh_ws_def spec_subscribed_def
        spec_participant_def getVendorByUserId_def getOrder_def demo_defs)

section \<open>Properties of the identity stored by the POST routes\<close>

lemmas post_api_orders_defs =
  post_api_orders_def insertOrderSchema_parse_def createOrder_def createOrderItem_def
  references_user_def references_vendor_def references_order_def references_product_def
  nullable_def no_updates_def demo_env_def null_or_absent_def inserted_texts_def text_in_def
  read_numeric_def demo_numeric_def is_digit_def Let_def

lemma orders_createOrderItem:
  assumes "createOrderItem e k st item = Inr (created, st')"
  shows "orders st' = orders st"
  using assms
  by (auto simp: createOrderItem_def Let_def split: option.splits if_splits)

lemma orders_createOrderItems:
  "orders (snd (createOrderItems e k st orderId items)) = orders st"
proof (induction items arbitrary: k st)
  case Nil
  show ?case by simp
next
  case (Cons item items)
  show ?case
  proof (cases "createOrderItem e k st (item\<lparr>ii_orderId := Some orderId\<rparr>)")
    case (Inl err)
    then show ?thesis by simp
  next
    case (Inr result)
    obtain created st' where result: "result = (created, st')"
      by (cases result)
    with Inr Cons.IH [of "Suc k" st'] orders_createOrderItem [of e k st _ created st']
    show ?thesis by simp
  qed
qed

lemma createOrder_userId:
  assumes "createOrder e st validated = Inr (order, st')"
  shows "o_userId order = io_userId validated \<and> orders st' = orders st @ [order]"
  using assms
  by (auto simp: createOrder_def Let_def split: if_splits sum.splits option.splits)

lemma insertOrderSchema_parse_userId:
  assumes "insertOrderSchema_parse (body\<lparr>upd_userId := Some ident\<rparr>) = Inr validated"
  shows "io_userId validated = ident"
  using assms
  by (auto simp: insertOrderSchema_parse_def split: option.splits if_splits)

lemma post_api_orders_stored:
  assumes "req_user req = Some user"
  shows "(orders (snd (post_api_orders e st req)) = orders st \<and>
          \<not> succeeds (fst (post_api_orders e st req))) \<or>
         (\<exists>order. orders (snd (post_api_orders e st req)) = orders st @ [order] \<and>
            o_userId order = u_id user \<and>
            (succeeds (fst (post_api_orders e st req)) \<longrightarrow>
               fst (post_api_orders e st req) = Success 201 order))"
proof (cases "insertOrderSchema_parse ((ob_columns (req_body req))\<lparr>upd_userId := Some (u_id user)\<rparr>)")
  case (Inl err)
  with assms show ?thesis
    by (simp add: post_api_orders_def succeeds_def)
next
  case (Inr validated)
  note parsed = this
  have ident: "io_userId validated = u_id user"
    using parsed by (rule insertOrderSchema_parse_userId)
  show ?thesis
  proof (cases "createOrder e st validated")
    case (Inl err)
    with assms parsed show ?thesis
      by (simp add: post_api_orders_def succeeds_def)
  next
    case (Inr result)
    obtain order st1 where result: "result = (order, st1)"
      by (cases result)
    from Inr result createOrder_userId [of e st validated order st1] ident
    have row: "o_userId order = u_id user" "orders st1 = orders st @ [order]"
      by simp_all
    have "orders (snd (post_api_orders e st req)) = orders st @ [order] \<and>
          (succeeds (fst (post_api_orders e st req)) \<longrightarrow>
             fst (post_api_orders e st req) = Success 201 order)"
    proof (cases "ob_items (req_body req)")
      case None
      with assms parsed Inr result row show ?thesis
        by (simp add: post_api_orders_def)
    next
      case (Some items)
      obtain outcome st2 where loop: "createOrderItems e 1 st1 (o_id order) items = (outcome, st2)"
        by (cases "createOrderItems e 1 st1 (o_id order) items")
      with orders_createOrderItems [of e 1 st1 "o_id order" items] row
      have "orders st2 = orders st @ [order]"
        by simp
      with assms parsed Inr result Some loop show ?thesis
        by (cases outcome) (simp_all add: post_api_orders_def succeeds_def)
    qed
    with row show ?thesis by blast
  qed
qed

text \<open>
  C9. The chat stored by \<^verbatim>\<open>POST /api/chats\<close> has the session's user as sender and
  the order stored by \<^verbatim>\<open>POST /api/orders\<close> has the session's user as customer: a
  request answers and stores the same whatever \<^verbatim>\<open>senderId\<close> or \<^verbatim>\<open>userId\<close> its
  body carries, a created chat is appended with \<^verbatim>\<open>senderId\<close> equal to the user's
  identifier, and the orders table either stays as it was or is extended by one order whose
  \<^verbatim>\<open>userId\<close> is the user's identifier, which is the order returned on success.
\<close>

theorem session_identity_overrides_body:
  assumes "req_user creq = Some user"
    and "req_user oreq = Some user"
  shows "post_api_chats e srv (creq\<lparr>req_body := (req_body creq)\<lparr>cb_senderId := senderId\<rparr>\<rparr>) =
           post_api_chats e srv creq \<and>
         (\<forall>chat. fst (post_api_chats e srv creq) = Success 201 chat \<longrightarrow>
            c_senderId chat = u_id user \<and>
            chats (database (snd (post_api_chats e srv creq))) =
              chats (database srv) @ [chat]) \<and>
         post_api_orders e st
           (oreq\<lparr>req_body := (req_body oreq)
              \<lparr>ob_columns := (ob_columns (req_body oreq))\<lparr>upd_userId := userId\<rparr>\<rparr>\<rparr>) =
           post_api_orders e st oreq \<and>
         ((orders (snd (post_api_orders e st oreq)) = orders st \<and>
           \<not> succeeds (fst (post_api_orders e st oreq))) \<or>
          (\<exists>order. orders (snd (post_api_orders e st oreq)) = orders st @ [order] \<and>
             o_userId order = u_id user \<and>
             (succeeds (fst (post_api_orders e st oreq)) \<longrightarrow>
                fst (post_api_orders e st oreq) = Success 201 order)))"
proof (intro conjI allI impI)
  show "post_api_chats e srv (creq\<lparr>req_body := (req_body creq)\<lparr>cb_senderId := senderId\<rparr>\<rparr>) =
          post_api_chats e srv creq"
    using assms(1) by (simp add: post_api_chats_def)
next
  fix chat
  assume "fst (post_api_chats e srv creq) = Success 201 chat"
  with post_api_chats_success [OF assms(1), of e srv 201 chat]
  show "c_senderId chat = u_id user"
    and "chats (database (snd (post_api_chats e srv creq))) = chats (database srv) @ [chat]"
    by simp_all
next
  show "post_api_orders e st
          (oreq\<lparr>req_body := (req_body oreq)
             \<lparr>ob_columns := (ob_columns (req_body oreq))\<lparr>upd_userId := userId\<rparr>\<rparr>\<rparr>) =
        post_api_orders e st oreq"
    using assms(2) by (simp add: post_api_orders_def split: sum.splits prod.splits)
next
  show "(orders (snd (post_api_orders e st oreq)) = orders st \<and>
           \<not> succeeds (fst (post_api_orders e st oreq))) \<or>
          (\<exists>order. orders (snd (post_api_orders e st oreq)) = orders st @ [order] \<and>
             o_userId order = u_id user \<and>
             (succeeds (fst (post_api_orders e st oreq)) \<longrightarrow>
                fst (post_api_orders e st oreq) = Success 201 order))"
    using assms(2) by (rule post_api_orders_stored)
qed

text \<open>
  \<open>customer1\<close> sends a chat and places an order, each with a body that names the
  administrator as its author: the stored chat and the stored order carry \<open>u-customer1\<close>.
\<close>

theorem session_identity_overrides_body_witness:
  "fst (post_api_chats demo_env demo_server
      \<lparr>req_user = Some customer1, req_params_id = [],
        req_body = chat_body ''o-1'' (Some ''u-admin'') ''u-vendor1'' ''hello''\<rparr>) =
     Success 201
       \<lparr> c_id = ''n'', c_orderId = ''o-1'', c_senderId = ''u-customer1'',
         c_receiverId = ''u-vendor1'', c_message = ''hello'', c_isRead = False,
         c_createdAt = 9000 \<rparr> \<and>
   (\<exists>order.
      fst (post_api_orders demo_env demo_db
        \<lparr>req_user = Some customer1, req_params_id = [],
          req_body = demo_order_body (Some ''u-admin'')\<rparr>) = Success 201 order \<and>
      o_userId order = ''u-customer1'' \<and>
      orders (snd (post_api_orders demo_env demo_db
        \<lparr>req_user = Some customer1, req_params_id = [],
          req_body = demo_order_body (Some ''u-admin'')\<rparr>)) = orders demo_db @ [order])"
proof -
  have chat: "fst (post_api_chats demo_env demo_server
      \<lparr>req_user = Some customer1, req_params_id = [],
        req_body = chat_body ''o-1'' (Some ''u-admin'') ''u-vendor1'' ''hello''\<rparr>) =
     Success 201
       \<lparr> c_id = ''n'', c_orderId = ''o-1'', c_senderId = ''u-customer1'',
         c_receiverId = ''u-vendor1'', c_message = ''hello'', c_isRead = False,
         c_createdAt = 9000 \<rparr>"
    by (simp add: post_api_chats_defs demo_defs)
  have placed: "succeeds (fst (post_api_orders demo_env demo_db
        \<lparr>req_user = Some customer1, req_params_id = [],
          req_body = demo_order_body (Some ''u-admin'')\<rparr>))"
    by (simp add: post_api_orders_defs demo_order_body_def succeeds_def demo_defs)
  have ident: "u_id customer1 = ''u-customer1''"
    by (simp add: customer1_def)
  show ?thesis
    using chat placed
      session_identity_overrides_body
        [where creq = "\<lparr>req_user = Some customer1, req_params_id = [],
                 req_body = chat_body ''o-1'' (Some ''u-admin'') ''u-vendor1'' ''hello''\<rparr>"
           and oreq = "\<lparr>req_user = Some customer1, req_params_id = [],
                 req_body = demo_order_body (Some ''u-admin'')\<rparr>"
           and user = customer1 and e = demo_env and srv = demo_server and st = demo_db]
    unfolding ident by auto
qed

section \<open>Properties of comparePasswords\<close>

lemma digits_below_16:
  "list_all (\<lambda>n. unhex (hex_digit n) = Some n) [0..<16]"
  by code_simp

lemma unhex_hex_digit:
  assumes "n < 16"
  shows "unhex (hex_digit n) = Some n"
proof -
  from assms have "n \<in> set [0..<16]"
    by simp
  with digits_below_16 show ?thesis
    unfolding list_all_iff by blast
qed

lemma hex_digit_is_digit: "hex_digit n \<in> set ''0123456789abcdef''"
  unfolding hex_digit_def by (rule nth_mem) simp

lemma hex_digit_plain:
  "hex_digit n \<noteq> CHR ''.''" "CHR ''.'' \<noteq> hex_digit n"
  "hex_digit n \<noteq> CHR ''$''" "CHR ''$'' \<noteq> hex_digit n"
  using hex_digit_is_digit [of n] by auto

lemma byte_of_digits: "word_of_nat (16 * (unat b div 16) + unat b mod 16) = (b :: 8 word)"
  by simp

lemma Buffer_from_hex_toString_hex:
  "Buffer_from_hex (toString_hex bs @ rest) = bs @ Buffer_from_hex rest"
proof (induction bs)
  case Nil
  show ?case by simp
next
  case (Cons b bs)
  have "unat b < 256"
    using unsigned_less [of b] by simp
  then have "unat b div 16 < 16"
    by simp
  then show ?case
    using Cons.IH by (simp add: unhex_hex_digit byte_of_digits)
qed

lemma toString_hex_plain:
  "CHR ''.'' \<notin> set (toString_hex bs)"
  by (induction bs) (simp_all add: hex_digit_plain)

lemma split_dot_nonempty: "split_dot s \<noteq> []"
  by (induction s) (simp_all split: list.splits)

lemma split_dot_no_dot:
  assumes "CHR ''.'' \<notin> set s"
  shows "split_dot s = [s]"
  using assms by (induction s) auto

lemma split_dot_first_dot:
  assumes "CHR ''.'' \<notin> set s"
  shows "split_dot (s @ CHR ''.'' # t) = s # split_dot t"
  using assms by (induction s) auto

lemma startsWith_dollar:
  assumes "s = [] \<or> hd s \<noteq> CHR ''$''"
  shows "\<not> startsWith s (CHR ''$'' # p)"
  using assms by (cases s) (auto simp: startsWith_def)

lemma Buffer_from_hex_junk: "Buffer_from_hex (toString_hex bs @ ''zz'') = bs"
  by (simp add: Buffer_from_hex_toString_hex unhex_def)

lemma split_dot_junk:
  "split_dot (toString_hex bs @ ''zz.5a17'') = [toString_hex bs @ ''zz'', ''5a17'']"
proof -
  have "CHR ''.'' \<notin> set (toString_hex bs @ ''zz'')"
    by (simp add: toString_hex_plain)
  from split_dot_first_dot [OF this, of "''5a17''"] show ?thesis
    by simp
qed

lemma no_prefix_junk:
  "\<not> startsWith (toString_hex bs @ ''zz.5a17'') (CHR ''$'' # p)"
  by (rule startsWith_dollar) (cases bs; simp add: hex_digit_plain)

lemma comparePasswords_junk:
  "comparePasswords scrypt supplied
     (toString_hex (scrypt supplied ''5a17'' 64) @ ''zz.5a17'') = Inr True"
  by (simp add: comparePasswords_def no_prefix_junk split_dot_junk Buffer_from_hex_junk
        timingSafeEqual_def)

lemma not_well_formed_junk:
  "\<not> spec_well_formed_scrypt (toString_hex bs @ ''zz.5a17'')"
  by (simp add: spec_well_formed_scrypt_def split_dot_junk unhex_def)

lemma comparePasswords_total:
  "comparePasswords scrypt supplied stored = Inr False \<or>
   comparePasswords scrypt supplied stored = Inr True"
  by (auto simp: comparePasswords_def timingSafeEqual_def split: list.splits)

lemma comparePasswords_rejects:
  assumes "derives_keylen scrypt"
    and "startsWith stored ''$2a$'' \<or> startsWith stored ''$2b$'' \<or> startsWith stored ''$2y$'' \<or>
         length (split_dot stored) \<noteq> 2 \<or>
         length (Buffer_from_hex (hd (split_dot stored))) \<noteq> 64"
  shows "comparePasswords scrypt supplied stored = Inr False"
proof (cases "startsWith stored ''$2a$'' \<or> startsWith stored ''$2b$'' \<or> startsWith stored ''$2y$''")
  case True
  then show ?thesis by (simp add: comparePasswords_def)
next
  case plain: False
  show ?thesis
  proof (cases "length (split_dot stored) = 2")
    case False
    then have "\<And>hashed salt. split_dot stored \<noteq> [hashed, salt]"
      by auto
    with plain show ?thesis
      by (simp add: comparePasswords_def split: list.splits)
  next
    case True
    then obtain hashed salt where parts: "split_dot stored = [hashed, salt]"
      by (cases "split_dot stored" rule: list.exhaust; cases "tl (split_dot stored)"; auto)
    with assms(2) plain True have "length (Buffer_from_hex hashed) \<noteq> 64"
      by simp
    moreover have "length (scrypt supplied salt 64) = 64"
      using assms(1) by (simp add: derives_keylen_def)
    ultimately show ?thesis
      using plain parts by (simp add: comparePasswords_def timingSafeEqual_def)
  qed
qed

text \<open>
  C10. \<^verbatim>\<open>comparePasswords\<close> returns \<^verbatim>\<open>false\<close> and does not throw for every
  stored password that starts with \<^verbatim>\<open>$2a$\<close>, \<^verbatim>\<open>$2b$\<close> or \<^verbatim>\<open>$2y$\<close>, or
  does not consist of exactly two parts around a dot, or whose first part does not decode
  to the 64 bytes of a derived key; the verify callback then refuses the user whatever
  password is supplied.
\<close>

theorem comparePasswords_rejects_malformed:
  assumes "derives_keylen scrypt"
    and "startsWith stored ''$2a$'' \<or> startsWith stored ''$2b$'' \<or> startsWith stored ''$2y$'' \<or>
         length (split_dot stored) \<noteq> 2 \<or>
         length (Buffer_from_hex (hd (split_dot stored))) \<noteq> 64"
  shows "comparePasswords scrypt supplied stored = Inr False \<and>
         (\<forall>st name user.
            getUserByUsername st name = Some user \<longrightarrow> u_password user = stored \<longrightarrow>
            verify scrypt st name supplied = Inr None)"
proof -
  have "comparePasswords scrypt supplied stored = Inr False"
    using assms by (rule comparePasswords_rejects)
  then show ?thesis
    by (simp add: verify_def)
qed

text \<open>
  The administrator's stored password is a bcrypt hash, the first delivery person's has a
  hash part of two bytes: neither can log in.
\<close>

theorem comparePasswords_rejects_malformed_witness:
  "derives_keylen demo_kdf \<and>
   comparePasswords demo_kdf ''admin123'' ''$2b$10$N9qo8uLOickgx2ZMRZoMye'' = Inr False \<and>
   verify demo_kdf demo_db ''admin'' ''admin123'' = Inr None \<and>
   comparePasswords demo_kdf ''delivery123'' ''00ff.5a17'' = Inr False \<and>
   verify demo_kdf demo_db ''delivery1'' ''delivery123'' = Inr None"
proof -
  have kdf: "derives_keylen demo_kdf"
    by (simp add: derives_keylen_def demo_kdf_def)
  have bcrypt:
    "startsWith ''$2b$10$N9qo8uLOickgx2ZMRZoMye'' ''$2a$'' \<or>
     startsWith ''$2b$10$N9qo8uLOickgx2ZMRZoMye'' ''$2b$'' \<or>
     startsWith ''$2b$10$N9qo8uLOickgx2ZMRZoMye'' ''$2y$'' \<or>
     length (split_dot ''$2b$10$N9qo8uLOickgx2ZMRZoMye'') \<noteq> 2 \<or>
     length (Buffer_from_hex (hd (split_dot ''$2b$10$N9qo8uLOickgx2ZMRZoMye''))) \<noteq> 64"
    by (simp add: startsWith_def)
  have short:
    "startsWith ''00ff.5a17'' ''$2a$'' \<or> startsWith ''00ff.5a17'' ''$2b$'' \<or>
     startsWith ''00ff.5a17'' ''$2y$'' \<or> length (split_dot ''00ff.5a17'') \<noteq> 2 \<or>
     length (Buffer_from_hex (hd (split_dot ''00ff.5a17''))) \<noteq> 64"
    by (simp add: unhex_def)
  have found: "getUserByUsername demo_db ''admin'' = Some admin"
    "getUserByUsername demo_db ''delivery1'' = Some delivery1"
    by (simp_all add: getUserByUsername_def demo_defs)
  have stored: "u_password admin = ''$2b$10$N9qo8uLOickgx2ZMRZoMye''"
    "u_password delivery1 = ''00ff.5a17''"
    by (simp_all add: demo_defs)
  note first = comparePasswords_rejects_malformed [OF kdf bcrypt, of "''admin123''"]
  note second = comparePasswords_rejects_malformed [OF kdf short, of "''delivery123''"]
  from first found(1) stored(1)
  have "verify demo_kdf demo_db ''admin'' ''admin123'' = Inr None"
    by blast
  moreover from second found(2) stored(2)
  have "verify demo_kdf demo_db ''delivery1'' ''delivery123'' = Inr None"
    by blast
  ultimately show ?thesis
    using kdf first second by blast
qed

text \<open>
  Against C10 as stated, for every key derivation: take the record \<^verbatim>\<open>hashPassword\<close>
  writes for the password \<open>customer123\<close> and the salt \<open>5a17\<close>, and put \<open>zz\<close> before
  its dot. The hash part is no longer hexadecimal and has 130 characters, yet the decoder
  stops at \<open>zz\<close> with all 64 bytes read, and the password is accepted.
\<close>

theorem comparePasswords_junk_counterexample:
  "\<forall>scrypt.
     hashPassword scrypt ''5a17'' ''customer123'' =
       toString_hex (scrypt ''customer123'' ''5a17'' 64) @ ''.5a17'' \<and>
     \<not> spec_well_formed_scrypt (toString_hex (scrypt ''customer123'' ''5a17'' 64) @ ''zz.5a17'') \<and>
     comparePasswords scrypt ''customer123''
       (toString_hex (scrypt ''customer123'' ''5a17'' 64) @ ''zz.5a17'') = Inr True"
  by (simp add: hashPassword_def not_well_formed_junk comparePasswords_junk)


end
